theory Spec2Isabelle
  imports Complex_Main "HOL-Library.Multiset"
begin

section \<open>JSON documents and the JavaScript operations applied to them\<close>

text \<open>
  Both route handlers receive their inputs through \<^verbatim>\<open>await x.json()\<close>, so every value
  they look at is a parsed JSON value. A JavaScript value is a \<open>json option\<close>, where
  \<open>None\<close> is \<^verbatim>\<open>undefined\<close>. An object is the list of its own properties; \<open>map_of\<close>
  reads a property, at the first entry of its key. Numbers are kept as exact rationals:
  the value of a decimal literal is the rational it denotes (a binary64 engine holds the
  nearest double to it).
\<close>

datatype json =
    JNull
  | JBool bool
  | JNum rat
  | JStr string
  | JArr "json list"
  | JObj "(string \<times> json) list"

type_synonym jsval = "json option"

text \<open>What a \<^verbatim>\<open>throw\<close> or a rejected promise carries.\<close>

datatype exn = TypeError | SyntaxError | RangeError | NetworkError | HttpError nat

text \<open>\<^verbatim>\<open>!v\<close> is \<open>\<not> truthy v\<close>: undefined, null, false, 0 and the empty string are falsy.\<close>

fun truthy :: "jsval \<Rightarrow> bool" where
  "truthy None = False"
| "truthy (Some JNull) = False"
| "truthy (Some (JBool b)) = b"
| "truthy (Some (JNum n)) = (n \<noteq> 0)"
| "truthy (Some (JStr s)) = (s \<noteq> [])"
| "truthy (Some (JArr xs)) = True"
| "truthy (Some (JObj kvs)) = True"

text \<open>
  Reading a property of a value that is neither null nor undefined. Only objects carry
  the property names the program reads (\<^verbatim>\<open>id\<close>, \<^verbatim>\<open>url\<close>, \<^verbatim>\<open>metrics\<close>, \<^verbatim>\<open>displayValue\<close>, ...):
  none of them is a member of a string, number, boolean or array.
\<close>

fun ownProperty :: "json \<Rightarrow> string \<Rightarrow> jsval" where
  "ownProperty (JObj kvs) p = map_of kvs p"
| "ownProperty v p = None"

text \<open>\<^verbatim>\<open>v.p\<close>: a TypeError on null and undefined.\<close>

fun getProp :: "jsval \<Rightarrow> string \<Rightarrow> exn + jsval" where
  "getProp None p = Inl TypeError"
| "getProp (Some JNull) p = Inl TypeError"
| "getProp (Some v) p = Inr (ownProperty v p)"

text \<open>\<^verbatim>\<open>v?.p\<close>: undefined on null and undefined.\<close>

fun optProp :: "jsval \<Rightarrow> string \<Rightarrow> jsval" where
  "optProp None p = None"
| "optProp (Some JNull) p = None"
| "optProp (Some v) p = ownProperty v p"

text \<open>\<^verbatim>\<open>v || d\<close> with a literal default \<open>d\<close>.\<close>

definition orElse :: "jsval \<Rightarrow> json \<Rightarrow> json" where
  "orElse v d = (case v of None \<Rightarrow> d | Some x \<Rightarrow> if truthy (Some x) then x else d)"

text \<open>
  Whether the conversion of a value to a string returns. \<^verbatim>\<open>searchParams.set(name, v)\<close>
  converts \<open>v\<close> that way and throws a TypeError where the conversion does. The
  primitives convert. An object converts through \<^verbatim>\<open>Object.prototype.toString\<close>, unless it
  has a property \<^verbatim>\<open>toString\<close> of its own: that one is parsed JSON, so it cannot be called,
  and \<^verbatim>\<open>valueOf\<close> (its own, which cannot be called either, or the inherited one, which
  returns the object) gives no primitive. An array joins the conversions of its
  elements, null standing for the empty string.
\<close>

fun convertsToString :: "json \<Rightarrow> bool" where
  "convertsToString (JArr xs) = (\<forall>x \<in> set xs. convertsToString x)"
| "convertsToString (JObj kvs) = (map_of kvs ''toString'' = None)"
| "convertsToString v = True"

section \<open>Numeric parsing of display strings\<close>

definition isDigit :: "char \<Rightarrow> bool" where
  "isDigit c = (48 \<le> (of_char c :: nat) \<and> (of_char c :: nat) \<le> 57)"

definition digitValue :: "char \<Rightarrow> nat" where
  "digitValue c = of_char c - 48"

definition digitsValue :: "string \<Rightarrow> nat" where
  "digitsValue ds = foldl (\<lambda>a c. 10 * a + digitValue c) 0 ds"

text \<open>\<^verbatim>\<open>value.replace(/[^0-9.]/g, '')\<close>\<close>

definition stripNonNumeric :: "string \<Rightarrow> string" where
  "stripNonNumeric s = filter (\<lambda>c. isDigit c \<or> c = CHR ''.'') s"

text \<open>
  \<^verbatim>\<open>parseFloat\<close> on a string of digits and dots, which is all \<open>stripNonNumeric\<close> leaves:
  no white space, sign, exponent or \<^verbatim>\<open>Infinity\<close> can occur. It reads the longest prefix
  that is a decimal literal (digits, then optionally a dot and digits; or a dot and at
  least one digit) and is NaN, here \<open>None\<close>, when there is no such prefix. The result
  here is the number the literal denotes; the code has the binary64 number nearest to it.
\<close>

definition parseFloat :: "string \<Rightarrow> rat option" where
  "parseFloat s =
     (let ip = takeWhile isDigit s; r = dropWhile isDigit s in
      case r of
        [] \<Rightarrow> if ip = [] then None else Some (of_nat (digitsValue ip))
      | c # r' \<Rightarrow>
          if c = CHR ''.'' then
            (let fp = takeWhile isDigit r' in
             if ip = [] \<and> fp = [] then None
             else Some (of_nat (digitsValue (ip @ fp)) / 10 ^ length fp))
          else if ip = [] then None
          else Some (of_nat (digitsValue ip)))"

text \<open>
  \<^verbatim>\<open>parseMetricValue\<close> of unnamed/part_005, lines 57-62. The parameter is typed
  \<^verbatim>\<open>string\<close>, but it receives whatever the extraction left in the field: on a truthy
  value that is not a string, \<^verbatim>\<open>value.replace\<close> is not a function and the call throws.
\<close>

definition parseMetricValue :: "jsval \<Rightarrow> exn + rat" where
  "parseMetricValue v =
     (if \<not> truthy v \<or> v = Some (JStr ''N/A'') then Inr 0
      else case v of
        Some (JStr s) \<Rightarrow>
          (case parseFloat (stripNonNumeric s) of
             None \<Rightarrow> Inr 0
           | Some numericValue \<Rightarrow> Inr numericValue)
      | _ \<Rightarrow> Inl TypeError)"

section \<open>Metric extraction\<close>

text \<open>
  The object literal \<^verbatim>\<open>result\<close> of both handlers (unnamed/part_005, lines 36-54, and
  src/app/api/pagespeed/route.ts, lines 34-47; the two literals read the same paths).
  \<open>res_id\<close> is the field \<^verbatim>\<open>id\<close>; a field that is undefined is left out when the
  response is serialised.
\<close>

record pagespeed_result =
  res_id :: jsval
  cruxMetrics :: "(string \<times> json) list"
  lighthouseMetrics :: "(string \<times> json) list"
  databaseId :: jsval

text \<open>\<^verbatim>\<open>le?.metrics?.M?.category || 'N/A'\<close>, for \<open>le\<close> the value of \<^verbatim>\<open>data.loadingExperience\<close>.\<close>

definition cruxCategory :: "jsval \<Rightarrow> string \<Rightarrow> json" where
  "cruxCategory le m =
     orElse (optProp (optProp (optProp le ''metrics'') m) ''category'') (JStr ''N/A'')"

text \<open>\<^verbatim>\<open>lr?.audits?.[a]?.displayValue || 'N/A'\<close>, for \<open>lr\<close> the value of \<^verbatim>\<open>data.lighthouseResult\<close>.\<close>

definition auditDisplayValue :: "jsval \<Rightarrow> string \<Rightarrow> json" where
  "auditDisplayValue lr a =
     orElse (optProp (optProp (optProp lr ''audits'') a) ''displayValue'') (JStr ''N/A'')"

definition extractMetrics :: "json \<Rightarrow> exn + pagespeed_result" where
  "extractMetrics data =
     (case getProp (Some data) ''id'' of
        Inl e \<Rightarrow> Inl e
      | Inr idv \<Rightarrow>
     (case getProp (Some data) ''loadingExperience'' of
        Inl e \<Rightarrow> Inl e
      | Inr le \<Rightarrow>
     (case getProp (Some data) ''lighthouseResult'' of
        Inl e \<Rightarrow> Inl e
      | Inr lr \<Rightarrow>
          Inr \<lparr> res_id = idv,
                cruxMetrics =
                  [(''First Contentful Paint'', cruxCategory le ''FIRST_CONTENTFUL_PAINT_MS''),
                   (''Interaction to Next Paint'', cruxCategory le ''INTERACTION_TO_NEXT_PAINT'')],
                lighthouseMetrics =
                  [(''First Contentful Paint'', auditDisplayValue lr ''first-contentful-paint''),
                   (''Speed Index'', auditDisplayValue lr ''speed-index''),
                   (''Largest Contentful Paint'', auditDisplayValue lr ''largest-contentful-paint''),
                   (''Total Blocking Time'', auditDisplayValue lr ''total-blocking-time''),
                   (''Time To Interactive'', auditDisplayValue lr ''interactive'')],
                databaseId = None \<rparr>)))"

section \<open>The analysis endpoint\<close>

text \<open>
  The handlers talk to three collaborators: the incoming request, the upstream
  measurement API and the store. Each is an input of the model, with every way it can
  answer; what the handler did to them is returned as a list of events, in order.
  The request URL built with \<^verbatim>\<open>searchParams.set\<close> is kept as its parameters.
\<close>

record pagespeed_query =
  q_url :: json
  q_strategy :: "string option"
  q_key :: "string option"

text \<open>
  \<^verbatim>\<open>await fetch(...)\<close> rejects, or resolves to a response with its \<^verbatim>\<open>ok\<close> flag, its
  status and the outcome of \<^verbatim>\<open>response.json()\<close> (\<open>None\<close> when the body is not JSON).
\<close>

datatype fetch_outcome =
    FetchRejected
  | FetchResponse bool nat "json option"

text \<open>
  \<^verbatim>\<open>await supabase.from(...).insert([dbRecord]).select()\<close> throws, or resolves to
  \<^verbatim>\<open>{data, error}\<close>: the returned rows (or null) and the error (or null).
\<close>

datatype insert_outcome =
    InsertThrows
  | InsertReturns "json list option" jsval

text \<open>
  \<open>upperCase\<close> is \<^verbatim>\<open>String.prototype.toUpperCase\<close>, the upper-casing of the platform (it
  follows Unicode). The module is taken as loaded, with its store client constructed.
\<close>

record environment =
  requestJson :: "json option"
  apiKey :: "string option"
  upperCase :: "string \<Rightarrow> string"
  fetch :: "pagespeed_query \<Rightarrow> fetch_outcome"
  storeInsert :: "json \<Rightarrow> insert_outcome"

datatype event = Fetch pagespeed_query | Insert json

datatype http_body = ErrorBody string | ResultBody pagespeed_result

datatype http_response = Response nat http_body

fun statusOf :: "http_response \<Rightarrow> nat" where
  "statusOf (Response st b) = st"

text \<open>\<^verbatim>\<open>if (apiKey) url.searchParams.set('key', apiKey)\<close>\<close>

definition keyParam :: "string option \<Rightarrow> string option" where
  "keyParam k = (case k of None \<Rightarrow> None | Some s \<Rightarrow> if s = [] then None else Some s)"

text \<open>
  \<^verbatim>\<open>strategy.toUpperCase()\<close>, where \<^verbatim>\<open>strategy\<close> is the body's field or the default
  \<^verbatim>\<open>'desktop'\<close> when the field is undefined: a TypeError unless it is a string.
\<close>

definition strategyParam :: "(string \<Rightarrow> string) \<Rightarrow> json \<Rightarrow> exn + string" where
  "strategyParam upper strategy =
     (case strategy of JStr s \<Rightarrow> Inr (upper s) | _ \<Rightarrow> Inl TypeError)"

text \<open>The record \<^verbatim>\<open>dbRecord\<close> (lines 65-73), as the JSON object handed to the store.\<close>

definition dbRecord :: "pagespeed_result \<Rightarrow> json \<Rightarrow> json \<Rightarrow> exn + json" where
  "dbRecord result targetUrl strategy =
     (case parseMetricValue (map_of (lighthouseMetrics result) ''First Contentful Paint'') of
        Inl e \<Rightarrow> Inl e
      | Inr fcp \<Rightarrow>
     (case parseMetricValue (map_of (lighthouseMetrics result) ''Speed Index'') of
        Inl e \<Rightarrow> Inl e
      | Inr si \<Rightarrow>
     (case parseMetricValue (map_of (lighthouseMetrics result) ''Largest Contentful Paint'') of
        Inl e \<Rightarrow> Inl e
      | Inr lcp \<Rightarrow>
     (case parseMetricValue (map_of (lighthouseMetrics result) ''Total Blocking Time'') of
        Inl e \<Rightarrow> Inl e
      | Inr tbt \<Rightarrow>
     (case parseMetricValue (map_of (lighthouseMetrics result) ''Time To Interactive'') of
        Inl e \<Rightarrow> Inl e
      | Inr tti \<Rightarrow>
          Inr (JObj [(''first_content_paint'', JNum fcp),
                     (''speed_index'', JNum si),
                     (''largest_content_paint'', JNum lcp),
                     (''total_blocking_time'', JNum tbt),
                     (''time_to_interactive'', JNum tti),
                     (''url'', targetUrl),
                     (''device_strategy'', strategy)]))))))"

text \<open>
  The inner \<^verbatim>\<open>try\<close> (lines 76-95): whatever the store does, the handler goes on with
  \<^verbatim>\<open>result\<close>, which gains \<^verbatim>\<open>databaseId\<close> only on the branch of line 89.
\<close>

definition saveResult :: "pagespeed_result \<Rightarrow> insert_outcome \<Rightarrow> pagespeed_result" where
  "saveResult result outcome =
     (case outcome of
        InsertThrows \<Rightarrow> result
      | InsertReturns insertData dbError \<Rightarrow>
          if truthy dbError then result
          else (case insertData of
                  None \<Rightarrow> result
                | Some [] \<Rightarrow> result
                | Some (row # rest) \<Rightarrow>
                    if truthy (Some row) then
                      (case getProp (Some row) ''id'' of
                         Inl e \<Rightarrow> result
                       | Inr i \<Rightarrow> result\<lparr>databaseId := i\<rparr>)
                    else result))"

text \<open>
  The body of the outer \<^verbatim>\<open>try\<close> of unnamed/part_005: \<open>Inl\<close> is an exception on its way
  to the \<^verbatim>\<open>catch\<close> of line 98, \<open>Inr\<close> a response returned. After the check of the URL,
  line 19 converts it to a string and line 20 upper-cases the strategy; either can throw,
  before any fetch.
\<close>

definition POST_try :: "environment \<Rightarrow> (exn + http_response) \<times> event list" where
  "POST_try env =
     (case requestJson env of
        None \<Rightarrow> (Inl SyntaxError, [])
      | Some body \<Rightarrow>
     (case getProp (Some body) ''url'' of
        Inl e \<Rightarrow> (Inl e, [])
      | Inr targetUrl \<Rightarrow>
     (case getProp (Some body) ''strategy'' of
        Inl e \<Rightarrow> (Inl e, [])
      | Inr strategyField \<Rightarrow>
     (let strategy = (case strategyField of None \<Rightarrow> JStr ''desktop'' | Some v \<Rightarrow> v) in
      case targetUrl of
        None \<Rightarrow> (Inr (Response 400 (ErrorBody ''URL is required'')), [])
      | Some u \<Rightarrow>
          if \<not> truthy (Some u) then (Inr (Response 400 (ErrorBody ''URL is required'')), [])
          else if \<not> convertsToString u then (Inl TypeError, [])
          else
     (case strategyParam (upperCase env) strategy of
        Inl e \<Rightarrow> (Inl e, [])
      | Inr s \<Rightarrow>
     (let q = \<lparr> q_url = u, q_strategy = Some s, q_key = keyParam (apiKey env) \<rparr> in
      case fetch env q of
        FetchRejected \<Rightarrow> (Inl NetworkError, [Fetch q])
      | FetchResponse ok st parsed \<Rightarrow>
          if \<not> ok then (Inl (HttpError st), [Fetch q])
          else
     (case parsed of
        None \<Rightarrow> (Inl SyntaxError, [Fetch q])
      | Some data \<Rightarrow>
     (case extractMetrics data of
        Inl e \<Rightarrow> (Inl e, [Fetch q])
      | Inr result \<Rightarrow>
     (case dbRecord result u strategy of
        Inl e \<Rightarrow> (Inl e, [Fetch q])
      | Inr r \<Rightarrow>
          (Inr (Response 200 (ResultBody (saveResult result (storeInsert env r)))),
           [Fetch q, Insert r]))))))))))"

definition POST :: "environment \<Rightarrow> http_response \<times> event list" where
  "POST env =
     (case POST_try env of
        (Inr response, events) \<Rightarrow> (response, events)
      | (Inl e, events) \<Rightarrow>
          (Response 500 (ErrorBody ''Failed to fetch PageSpeed data''), events))"

text \<open>
  The handler of src/app/api/pagespeed/route.ts: the same, with no strategy parameter,
  no parsing and no store.
\<close>

definition POST_route_try :: "environment \<Rightarrow> (exn + http_response) \<times> event list" where
  "POST_route_try env =
     (case requestJson env of
        None \<Rightarrow> (Inl SyntaxError, [])
      | Some body \<Rightarrow>
     (case getProp (Some body) ''url'' of
        Inl e \<Rightarrow> (Inl e, [])
      | Inr targetUrl \<Rightarrow>
     (case targetUrl of
        None \<Rightarrow> (Inr (Response 400 (ErrorBody ''URL is required'')), [])
      | Some u \<Rightarrow>
          if \<not> truthy (Some u) then (Inr (Response 400 (ErrorBody ''URL is required'')), [])
          else if \<not> convertsToString u then (Inl TypeError, [])
          else
     (let q = \<lparr> q_url = u, q_strategy = None, q_key = keyParam (apiKey env) \<rparr> in
      case fetch env q of
        FetchRejected \<Rightarrow> (Inl NetworkError, [Fetch q])
      | FetchResponse ok st parsed \<Rightarrow>
          if \<not> ok then (Inl (HttpError st), [Fetch q])
          else
     (case parsed of
        None \<Rightarrow> (Inl SyntaxError, [Fetch q])
      | Some data \<Rightarrow>
     (case extractMetrics data of
        Inl e \<Rightarrow> (Inl e, [Fetch q])
      | Inr result \<Rightarrow> (Inr (Response 200 (ResultBody result)), [Fetch q])))))))"

definition POST_route :: "environment \<Rightarrow> http_response \<times> event list" where
  "POST_route env =
     (case POST_route_try env of
        (Inr response, events) \<Rightarrow> (response, events)
      | (Inl e, events) \<Rightarrow>
          (Response 500 (ErrorBody ''Failed to fetch PageSpeed data''), events))"

section \<open>Historical records on the client\<close>

text \<open>
  \<^verbatim>\<open>LighthouseResult\<close> of src/lib/supabase.ts, as a row read back from the store. A field
  that is null or undefined is \<open>None\<close> (the client only ever tests such a field with
  \<^verbatim>\<open>!\<close>, \<^verbatim>\<open>||\<close> or \<^verbatim>\<open>?.\<close>, which treat the two alike). \<open>row_id\<close> is the field \<^verbatim>\<open>id\<close>.
\<close>

record LighthouseResult =
  row_id :: "int option"
  created_at :: "string option"
  first_content_paint :: "rat option"
  speed_index :: "rat option"
  largest_content_paint :: "rat option"
  total_blocking_time :: "rat option"
  time_to_interactive :: "rat option"
  url :: "string option"
  device_strategy :: "string option"

text \<open>
  Three services of the platform are parameters of the client functions:
  \<^item> \<open>dateParse\<close>, the time value in milliseconds of \<^verbatim>\<open>new Date(s)\<close> for a string \<open>s\<close>,
    \<open>None\<close> for an Invalid Date (whose time value is NaN);
  \<^item> \<open>hostname\<close>, the \<^verbatim>\<open>hostname\<close> of \<^verbatim>\<open>new URL(s)\<close>, \<open>None\<close> when the constructor throws;
  \<^item> \<open>numberToString\<close> and \<open>toISOString\<close>, used by the export only.
\<close>

text \<open>\<^verbatim>\<open>new Date(r.created_at || 0)\<close>: the epoch when the field is missing or empty.\<close>

definition createdTime :: "(string \<Rightarrow> int option) \<Rightarrow> LighthouseResult \<Rightarrow> int option" where
  "createdTime dateParse r =
     (case created_at r of
        None \<Rightarrow> Some 0
      | Some s \<Rightarrow> if s = [] then Some 0 else dateParse s)"

subsection \<open>Array.prototype.sort\<close>

text \<open>
  A comparator returns a number; a NaN result counts as 0, which the comparators below
  write out. For a consistent comparator the language fixes the outcome of
  \<^verbatim>\<open>sort\<close>: the elements in comparator order, equal elements in their original order.
  Insertion from the right, each element going in front of the first one it does not
  follow, computes exactly that.
\<close>

fun insertSorted :: "('a \<Rightarrow> 'a \<Rightarrow> int) \<Rightarrow> 'a \<Rightarrow> 'a list \<Rightarrow> 'a list" where
  "insertSorted cmp x [] = [x]"
| "insertSorted cmp x (y # ys) =
     (if cmp x y \<le> 0 then x # y # ys else y # insertSorted cmp x ys)"

definition arraySort :: "('a \<Rightarrow> 'a \<Rightarrow> int) \<Rightarrow> 'a list \<Rightarrow> 'a list" where
  "arraySort cmp xs = foldr (insertSorted cmp) xs []"

subsection \<open>Sorting the history (unnamed/part_000, lines 64-81)\<close>

datatype SortField =
    F_created_at
  | F_first_content_paint
  | F_speed_index
  | F_largest_content_paint
  | F_total_blocking_time
  | F_time_to_interactive

datatype SortDirection = Asc | Desc

text \<open>\<^verbatim>\<open>a[field]\<close> for a numeric field.\<close>

fun metricField :: "SortField \<Rightarrow> LighthouseResult \<Rightarrow> rat option" where
  "metricField F_created_at r = None"
| "metricField F_first_content_paint r = first_content_paint r"
| "metricField F_speed_index r = speed_index r"
| "metricField F_largest_content_paint r = largest_content_paint r"
| "metricField F_total_blocking_time r = total_blocking_time r"
| "metricField F_time_to_interactive r = time_to_interactive r"

text \<open>
  \<^verbatim>\<open>aValue\<close>: a Date for \<^verbatim>\<open>created_at\<close>, else \<^verbatim>\<open>a[field] || 0\<close>. The relational operators
  read a Date as its time value, so both are numbers, \<open>None\<close> being NaN.
\<close>

definition sortValue :: "(string \<Rightarrow> int option) \<Rightarrow> SortField \<Rightarrow> LighthouseResult \<Rightarrow> rat option" where
  "sortValue dateParse field r =
     (if field = F_created_at then map_option of_int (createdTime dateParse r)
      else (case metricField field r of None \<Rightarrow> Some 0 | Some v \<Rightarrow> Some v))"

text \<open>\<^verbatim>\<open>x < y\<close> on numbers: false as soon as one side is NaN.\<close>

fun jsLess :: "rat option \<Rightarrow> rat option \<Rightarrow> bool" where
  "jsLess (Some x) (Some y) = (x < y)"
| "jsLess a b = False"

definition compareResults ::
  "(string \<Rightarrow> int option) \<Rightarrow> SortField \<Rightarrow> SortDirection \<Rightarrow> LighthouseResult \<Rightarrow> LighthouseResult \<Rightarrow> int" where
  "compareResults dateParse field direction a b =
     (let aValue = sortValue dateParse field a; bValue = sortValue dateParse field b in
      if jsLess aValue bValue then (if direction = Asc then - 1 else 1)
      else if jsLess bValue aValue then (if direction = Asc then 1 else - 1)
      else 0)"

definition sortResults ::
  "(string \<Rightarrow> int option) \<Rightarrow> LighthouseResult list \<Rightarrow> SortField \<Rightarrow> SortDirection \<Rightarrow> LighthouseResult list" where
  "sortResults dateParse data field direction =
     arraySort (compareResults dateParse field direction) data"

subsection \<open>Filtering the history (unnamed/part_000, lines 33-53)\<close>

text \<open>The callback of the first \<^verbatim>\<open>filter\<close> (lines 37-45).\<close>

definition matchesWebsite :: "(string \<Rightarrow> string option) \<Rightarrow> string \<Rightarrow> LighthouseResult \<Rightarrow> bool" where
  "matchesWebsite hostname selectedWebsite result =
     (case url result of
        None \<Rightarrow> False
      | Some u \<Rightarrow>
          if u = [] then False
          else (case hostname u of None \<Rightarrow> False | Some h \<Rightarrow> h = selectedWebsite))"

definition filterByWebsite ::
  "(string \<Rightarrow> string option) \<Rightarrow> string option \<Rightarrow> LighthouseResult list \<Rightarrow> LighthouseResult list" where
  "filterByWebsite hostname selectedWebsite results =
     (case selectedWebsite of
        None \<Rightarrow> results
      | Some w \<Rightarrow> if w = [] then results else filter (matchesWebsite hostname w) results)"

definition filterByStrategy :: "string \<Rightarrow> LighthouseResult list \<Rightarrow> LighthouseResult list" where
  "filterByStrategy strategyFilter results =
     (if strategyFilter \<noteq> ''all''
      then filter (\<lambda>result. device_strategy result = Some strategyFilter) results
      else results)"

definition filterResults ::
  "(string \<Rightarrow> string option) \<Rightarrow> string option \<Rightarrow> string \<Rightarrow> LighthouseResult list \<Rightarrow> LighthouseResult list" where
  "filterResults hostname selectedWebsite strategyFilter results =
     filterByStrategy strategyFilter (filterByWebsite hostname selectedWebsite results)"

subsection \<open>Grouping by website (src/app/components/Sidenav.tsx, lines 33-66)\<close>

record WebsiteGroup =
  wg_url :: string
  wg_domain :: string
  wg_count :: nat
  wg_lastTested :: string
  wg_results :: "LighthouseResult list"

text \<open>
  The \<^verbatim>\<open>Map\<close> keeps its keys in the order of their first insertion: a list of pairs.
  \<open>pushResult\<close> is lines 41-44.
\<close>

fun pushResult ::
  "string \<Rightarrow> LighthouseResult \<Rightarrow> (string \<times> LighthouseResult list) list \<Rightarrow> (string \<times> LighthouseResult list) list" where
  "pushResult d r [] = [(d, [r])]"
| "pushResult d r ((k, rs) # m) =
     (if k = d then (k, rs @ [r]) # m else (k, rs) # pushResult d r m)"

definition addToGroupMap ::
  "(string \<Rightarrow> string option) \<Rightarrow> (string \<times> LighthouseResult list) list \<Rightarrow> LighthouseResult \<Rightarrow> (string \<times> LighthouseResult list) list" where
  "addToGroupMap hostname m result =
     (case url result of
        None \<Rightarrow> m
      | Some u \<Rightarrow>
          if u = [] then m
          else (case hostname u of None \<Rightarrow> m | Some d \<Rightarrow> pushResult d result m))"

definition groupMap ::
  "(string \<Rightarrow> string option) \<Rightarrow> LighthouseResult list \<Rightarrow> (string \<times> LighthouseResult list) list" where
  "groupMap hostname results = foldl (addToGroupMap hostname) [] results"

text \<open>The comparator of line 53-55; a difference with a NaN operand is NaN, hence 0.\<close>

definition byCreatedDesc :: "(string \<Rightarrow> int option) \<Rightarrow> LighthouseResult \<Rightarrow> LighthouseResult \<Rightarrow> int" where
  "byCreatedDesc dateParse a b =
     (case createdTime dateParse b of
        None \<Rightarrow> 0
      | Some tb \<Rightarrow> (case createdTime dateParse a of None \<Rightarrow> 0 | Some ta \<Rightarrow> tb - ta))"

text \<open>The comparator of lines 64-66, on \<^verbatim>\<open>new Date(g.lastTested)\<close>.\<close>

definition byLastTestedDesc :: "(string \<Rightarrow> int option) \<Rightarrow> WebsiteGroup \<Rightarrow> WebsiteGroup \<Rightarrow> int" where
  "byLastTestedDesc dateParse a b =
     (case dateParse (wg_lastTested b) of
        None \<Rightarrow> 0
      | Some tb \<Rightarrow> (case dateParse (wg_lastTested a) of None \<Rightarrow> 0 | Some ta \<Rightarrow> tb - ta))"

text \<open>
  The callback of \<^verbatim>\<open>map\<close> (lines 52-63). \<^verbatim>\<open>sortedResults[0].url\<close> on an empty array
  would be a TypeError.
\<close>

definition makeGroup ::
  "(string \<Rightarrow> int option) \<Rightarrow> string \<times> LighthouseResult list \<Rightarrow> exn + WebsiteGroup" where
  "makeGroup dateParse entry =
     (case entry of (domain, results) \<Rightarrow>
        (let sortedResults = arraySort (byCreatedDesc dateParse) results in
         case sortedResults of
           [] \<Rightarrow> Inl TypeError
         | r0 # rest \<Rightarrow>
             Inr \<lparr> wg_url = (case url r0 of None \<Rightarrow> domain | Some u \<Rightarrow> if u = [] then domain else u),
                   wg_domain = domain,
                   wg_count = length sortedResults,
                   wg_lastTested = (case created_at r0 of None \<Rightarrow> [] | Some s \<Rightarrow> s),
                   wg_results = sortedResults \<rparr>))"

fun collect :: "(exn + 'a) list \<Rightarrow> exn + 'a list" where
  "collect [] = Inr []"
| "collect (x # xs) =
     (case x of
        Inl e \<Rightarrow> Inl e
      | Inr v \<Rightarrow> (case collect xs of Inl e \<Rightarrow> Inl e | Inr vs \<Rightarrow> Inr (v # vs)))"

definition fetchWebsiteGroups ::
  "(string \<Rightarrow> int option) \<Rightarrow> (string \<Rightarrow> string option) \<Rightarrow> LighthouseResult list \<Rightarrow> exn + WebsiteGroup list" where
  "fetchWebsiteGroups dateParse hostname results =
     (case collect (map (makeGroup dateParse) (groupMap hostname results)) of
        Inl e \<Rightarrow> Inl e
      | Inr groups \<Rightarrow> Inr (arraySort (byLastTestedDesc dateParse) groups))"

subsection \<open>Export (unnamed/part_000, lines 113-128)\<close>







section \<open>The tracked paths\<close>

text \<open>
  What the spec calls looking up a dot-path in the document: the value at the end of
  the path, \<open>None\<close> as soon as a segment is absent.
\<close>

fun pathValue :: "json \<Rightarrow> string list \<Rightarrow> jsval" where
  "pathValue v [] = Some v"
| "pathValue (JObj kvs) (k # ks) =
     (case map_of kvs k of None \<Rightarrow> None | Some w \<Rightarrow> pathValue w ks)"
| "pathValue v (k # ks) = None"

text \<open>The seven paths the extraction reads, under the names it stores them.\<close>

definition trackedCrux :: "(string \<times> string list) list" where
  "trackedCrux =
     [(''First Contentful Paint'',
         [''loadingExperience'', ''metrics'', ''FIRST_CONTENTFUL_PAINT_MS'', ''category'']),
      (''Interaction to Next Paint'',
         [''loadingExperience'', ''metrics'', ''INTERACTION_TO_NEXT_PAINT'', ''category''])]"

definition trackedLighthouse :: "(string \<times> string list) list" where
  "trackedLighthouse =
     [(''First Contentful Paint'',
         [''lighthouseResult'', ''audits'', ''first-contentful-paint'', ''displayValue'']),
      (''Speed Index'',
         [''lighthouseResult'', ''audits'', ''speed-index'', ''displayValue'']),
      (''Largest Contentful Paint'',
         [''lighthouseResult'', ''audits'', ''largest-contentful-paint'', ''displayValue'']),
      (''Total Blocking Time'',
         [''lighthouseResult'', ''audits'', ''total-blocking-time'', ''displayValue'']),
      (''Time To Interactive'',
         [''lighthouseResult'', ''audits'', ''interactive'', ''displayValue''])]"

text \<open>The entry the spec prescribes for a tracked path: its value, or the sentinel.\<close>

definition sentinelOr :: "json \<Rightarrow> string \<times> string list \<Rightarrow> string \<times> json" where
  "sentinelOr data entry = (fst entry, orElse (pathValue data (snd entry)) (JStr ''N/A''))"

section \<open>Notions of the specification\<close>

text \<open>\<^verbatim>\<open>strategy\<close> after the destructuring of line 6, with its default.\<close>

definition strategyOf :: "json \<Rightarrow> json" where
  "strategyOf body = (case ownProperty body ''strategy'' of None \<Rightarrow> JStr ''desktop'' | Some v \<Rightarrow> v)"

text \<open>
  The documents on which the normalization cannot throw: each of the five display
  values is a string, or falsy (and then replaced by the sentinel).
\<close>

definition displayValuesParse :: "json \<Rightarrow> bool" where
  "displayValuesParse data =
     list_all (\<lambda>entry. case pathValue data (snd entry) of
                          None \<Rightarrow> True
                        | Some (JStr s) \<Rightarrow> True
                        | Some v \<Rightarrow> \<not> truthy (Some v)) trackedLighthouse"

text \<open>
  A failed insert, as the spec has it: the call threw, or it reported an error.
\<close>

definition insertFailed :: "insert_outcome \<Rightarrow> bool" where
  "insertFailed outcome =
     (case outcome of InsertThrows \<Rightarrow> True | InsertReturns insertData dbError \<Rightarrow> truthy dbError)"

text \<open>
  The stated comparison of the sort. A record is compared by its creation time read as
  a timestamp (a record that has none stands at the epoch), or by one of its five
  measurements read as a number, a missing measurement counting as zero. \<open>a\<close> may stand
  before \<open>b\<close> when both values are numbers and they are in the order of the direction.
\<close>

definition zeroIfMissing :: "rat option \<Rightarrow> rat" where
  "zeroIfMissing v = (case v of None \<Rightarrow> 0 | Some x \<Rightarrow> x)"

fun statedValue :: "(string \<Rightarrow> int option) \<Rightarrow> SortField \<Rightarrow> LighthouseResult \<Rightarrow> rat option" where
  "statedValue dateParse F_created_at r =
     (case created_at r of
        None \<Rightarrow> Some 0
      | Some s \<Rightarrow> if s = [] then Some 0 else map_option of_int (dateParse s))"
| "statedValue dateParse F_first_content_paint r = Some (zeroIfMissing (first_content_paint r))"
| "statedValue dateParse F_speed_index r = Some (zeroIfMissing (speed_index r))"
| "statedValue dateParse F_largest_content_paint r = Some (zeroIfMissing (largest_content_paint r))"
| "statedValue dateParse F_total_blocking_time r = Some (zeroIfMissing (total_blocking_time r))"
| "statedValue dateParse F_time_to_interactive r = Some (zeroIfMissing (time_to_interactive r))"

definition statedOrder ::
  "(string \<Rightarrow> int option) \<Rightarrow> SortField \<Rightarrow> SortDirection \<Rightarrow> LighthouseResult \<Rightarrow> LighthouseResult \<Rightarrow> bool" where
  "statedOrder dateParse field direction a b =
     (case statedValue dateParse field a of
        None \<Rightarrow> False
      | Some x \<Rightarrow>
          (case statedValue dateParse field b of
             None \<Rightarrow> False
           | Some y \<Rightarrow> if direction = Asc then x \<le> y else y \<le> x))"

text \<open>Most recent first: both times are defined and the first is not the earlier one.\<close>

definition notEarlier :: "int option \<Rightarrow> int option \<Rightarrow> bool" where
  "notEarlier s t =
     (case s of None \<Rightarrow> False | Some x \<Rightarrow> (case t of None \<Rightarrow> False | Some y \<Rightarrow> y \<le> x))"

text \<open>The hostname of a record: none when the URL is absent, empty or does not parse.\<close>

definition recordHost :: "(string \<Rightarrow> string option) \<Rightarrow> LighthouseResult \<Rightarrow> string option" where
  "recordHost hostname r =
     (case url r of None \<Rightarrow> None | Some u \<Rightarrow> if u = [] then None else hostname u)"






section \<open>Scenarios\<close>

text \<open>
  The request of the spec's scenarios, and an upstream document that has some of the
  tracked paths and lacks others: no CrUX data, a first-contentful-paint of 2.3 s, an
  empty display value for the speed index, a total blocking time of 150 ms, and no audit
  for the other two metrics.
\<close>

definition scenarioRequest :: json where
  "scenarioRequest =
     JObj [(''url'', JStr ''https://example.com/''), (''strategy'', JStr ''desktop'')]"

definition scenarioDocument :: json where
  "scenarioDocument =
     JObj [(''id'', JStr ''https://example.com/''),
           (''lighthouseResult'',
              JObj [(''audits'',
                 JObj [(''first-contentful-paint'', JObj [(''displayValue'', JStr ''2.3 s'')]),
                       (''speed-index'', JObj [(''displayValue'', JStr [])]),
                       (''total-blocking-time'', JObj [(''displayValue'', JStr ''150 ms'')])])])]"

text \<open>
  An upper-casing for the scenarios: the platform's, on strings of ASCII characters.
\<close>

definition asciiUpperCase :: "string \<Rightarrow> string" where
  "asciiUpperCase s =
     map (\<lambda>c. if 97 \<le> (of_char c :: nat) \<and> (of_char c :: nat) \<le> 122
              then char_of ((of_char c :: nat) - 32) else c) s"

text \<open>An environment in which the upstream API and the store each answer in one way.\<close>

definition scenarioEnvironment :: "json option \<Rightarrow> fetch_outcome \<Rightarrow> insert_outcome \<Rightarrow> environment" where
  "scenarioEnvironment body upstream store =
     \<lparr> requestJson = body, apiKey = None, upperCase = asciiUpperCase,
       fetch = (\<lambda>q. upstream), storeInsert = (\<lambda>r. store) \<rparr>"

text \<open>
  A record as the store returns it for the scenarios, a hostname function that knows
  the two URLs of the filtering scenario, and a date function that knows three days.
\<close>

definition scenarioRecord :: "int \<Rightarrow> string \<Rightarrow> string \<Rightarrow> string \<Rightarrow> rat \<Rightarrow> LighthouseResult" where
  "scenarioRecord i created u strategy fcp =
     \<lparr> row_id = Some i, created_at = Some created, first_content_paint = Some fcp,
       speed_index = Some 0, largest_content_paint = Some 0, total_blocking_time = Some 150,
       time_to_interactive = None, url = Some u, device_strategy = Some strategy \<rparr>"

text \<open>
  Three records of one history that differ in every measurement, each lacking one or
  two: the six sort fields put them in six different orders.
\<close>

definition historyA :: LighthouseResult where
  "historyA =
     \<lparr> row_id = Some 1, created_at = Some ''2024-01-02T00:00:00Z'',
       first_content_paint = Some (23 / 10), speed_index = Some (31 / 10),
       largest_content_paint = None, total_blocking_time = Some 150,
       time_to_interactive = None, url = Some ''https://a.com/x'',
       device_strategy = Some ''desktop'' \<rparr>"

definition historyB :: LighthouseResult where
  "historyB =
     \<lparr> row_id = Some 2, created_at = Some ''2024-01-01T00:00:00Z'',
       first_content_paint = Some 3, speed_index = None,
       largest_content_paint = Some (9 / 2), total_blocking_time = Some 90,
       time_to_interactive = Some (41 / 10), url = Some ''https://a.com/x'',
       device_strategy = Some ''desktop'' \<rparr>"

definition historyC :: LighthouseResult where
  "historyC =
     \<lparr> row_id = Some 3, created_at = Some ''2024-01-03T00:00:00Z'',
       first_content_paint = None, speed_index = Some (6 / 5),
       largest_content_paint = Some (5 / 2), total_blocking_time = Some 50,
       time_to_interactive = Some (26 / 5), url = Some ''https://a.com/x'',
       device_strategy = Some ''desktop'' \<rparr>"

definition scenarioHostname :: "string \<Rightarrow> string option" where
  "scenarioHostname u =
     map_of [(''https://a.com/x'', ''a.com''), (''https://www.a.com/y'', ''www.a.com'')] u"

definition scenarioDate :: "string \<Rightarrow> int option" where
  "scenarioDate s =
     map_of [(''2024-01-01T00:00:00Z'', 1704067200000),
             (''2024-01-02T00:00:00Z'', 1704153600000),
             (''2024-01-03T00:00:00Z'', 1704240000000)] s"



section \<open>Properties of the numeric parse\<close>

lemma parseFloat_nonneg: "parseFloat s = Some v \<Longrightarrow> 0 \<le> v"
  by (auto simp: parseFloat_def Let_def split: list.splits if_splits)

lemma parseMetricValue_string_cases:
  "parseMetricValue (Some (JStr s)) =
     Inr (if s = [] \<or> s = ''N/A'' then 0
          else case parseFloat (stripNonNumeric s) of None \<Rightarrow> 0 | Some v \<Rightarrow> v)"
  by (simp add: parseMetricValue_def split: option.splits)

lemmas parse_eval =
  parseMetricValue_def parseFloat_def stripNonNumeric_def isDigit_def digitsValue_def
  digitValue_def

lemmas handler_eval =
  POST_def POST_try_def POST_route_def POST_route_try_def scenarioEnvironment_def
  scenarioRequest_def scenarioDocument_def extractMetrics_def cruxCategory_def
  auditDisplayValue_def orElse_def dbRecord_def saveResult_def strategyParam_def
  keyParam_def Let_def

text \<open>
  C1. On every display string \<open>s\<close> the numeric parse returns (it does not throw) a
  number that is not negative; the sentinel \<^verbatim>\<open>"N/A"\<close> gives 0; a string whose stripped
  form does not parse gives 0; and \<^verbatim>\<open>"2.3 s"\<close> gives 2.3, so that a normalized record
  built from a first-contentful-paint of \<^verbatim>\<open>"2.3 s"\<close> has \<^verbatim>\<open>first_content_paint\<close> 2.3.
\<close>

theorem parseMetricValue_display_string:
  "(\<exists>v. parseMetricValue (Some (JStr s)) = Inr v \<and> 0 \<le> v)
   \<and> parseMetricValue (Some (JStr ''N/A'')) = Inr 0
   \<and> (parseFloat (stripNonNumeric s) = None \<longrightarrow> parseMetricValue (Some (JStr s)) = Inr 0)
   \<and> parseMetricValue (Some (JStr ''2.3 s'')) = Inr (23 / 10)
   \<and> (map_of (lighthouseMetrics result) ''First Contentful Paint'' = Some (JStr ''2.3 s'')
        \<and> dbRecord result targetUrl strategy = Inr r
      \<longrightarrow> ownProperty r ''first_content_paint'' = Some (JNum (23 / 10)))"
proof (intro conjI impI)
  show "\<exists>v. parseMetricValue (Some (JStr s)) = Inr v \<and> 0 \<le> v"
  proof (cases "parseFloat (stripNonNumeric s)")
    case None
    then show ?thesis by (simp add: parseMetricValue_string_cases)
  next
    case (Some v)
    then have "0 \<le> v" by (rule parseFloat_nonneg)
    with Some show ?thesis by (simp add: parseMetricValue_string_cases)
  qed
next
  show "parseMetricValue (Some (JStr ''N/A'')) = Inr 0"
    by (simp add: parseMetricValue_def)
next
  assume "parseFloat (stripNonNumeric s) = None"
  then show "parseMetricValue (Some (JStr s)) = Inr 0"
    by (simp add: parseMetricValue_string_cases)
next
  show scenario: "parseMetricValue (Some (JStr ''2.3 s'')) = Inr (23 / 10)"
    by (simp add: parse_eval)
  assume "map_of (lighthouseMetrics result) ''First Contentful Paint'' = Some (JStr ''2.3 s'')
        \<and> dbRecord result targetUrl strategy = Inr r"
  then show "ownProperty r ''first_content_paint'' = Some (JNum (23 / 10))"
    by (auto simp: dbRecord_def scenario split: sum.splits)
qed

text \<open>
  The theorem at the display string \<^verbatim>\<open>"fast"\<close>, which strips to the empty string, the
  parse of three more strings (thousands separators and signs are stripped too), and the
  record the handler hands to the store in the scenario.
\<close>

theorem parseMetricValue_display_string_witness:
  "parseFloat (stripNonNumeric ''fast'') = None
   \<and> parseMetricValue (Some (JStr ''fast'')) = Inr 0
   \<and> parseMetricValue (Some (JStr ''150 ms'')) = Inr 150
   \<and> parseMetricValue (Some (JStr ''1,234 ms'')) = Inr 1234
   \<and> parseMetricValue (Some (JStr ''-0.5 s'')) = Inr (1 / 2)
   \<and> snd (POST (scenarioEnvironment (Some scenarioRequest)
                  (FetchResponse True 200 (Some scenarioDocument)) InsertThrows))
       = [Fetch \<lparr> q_url = JStr ''https://example.com/'',
                  q_strategy = Some (asciiUpperCase ''desktop''), q_key = None \<rparr>,
          Insert (JObj [(''first_content_paint'', JNum (23 / 10)), (''speed_index'', JNum 0),
                        (''largest_content_paint'', JNum 0), (''total_blocking_time'', JNum 150),
                        (''time_to_interactive'', JNum 0),
                        (''url'', JStr ''https://example.com/''),
                        (''device_strategy'', JStr ''desktop'')])]"
proof -
  have unparsed: "parseFloat (stripNonNumeric ''fast'') = None"
    by (simp add: parse_eval)
  have "parseFloat (stripNonNumeric ''fast'') = None \<longrightarrow>
          parseMetricValue (Some (JStr ''fast'')) = Inr 0"
    by (rule parseMetricValue_display_string [THEN conjunct2, THEN conjunct2, THEN conjunct1])
  with unparsed have "parseMetricValue (Some (JStr ''fast'')) = Inr 0"
    by (rule rev_mp)
  moreover have "parseMetricValue (Some (JStr ''150 ms'')) = Inr 150"
    by (simp add: parse_eval)
  moreover have "parseMetricValue (Some (JStr ''1,234 ms'')) = Inr 1234"
    by (simp add: parse_eval)
  moreover have "parseMetricValue (Some (JStr ''-0.5 s'')) = Inr (1 / 2)"
    by (simp add: parse_eval)
  moreover have "snd (POST (scenarioEnvironment (Some scenarioRequest)
                  (FetchResponse True 200 (Some scenarioDocument)) InsertThrows))
       = [Fetch \<lparr> q_url = JStr ''https://example.com/'',
                  q_strategy = Some (asciiUpperCase ''desktop''), q_key = None \<rparr>,
          Insert (JObj [(''first_content_paint'', JNum (23 / 10)), (''speed_index'', JNum 0),
                        (''largest_content_paint'', JNum 0), (''total_blocking_time'', JNum 150),
                        (''time_to_interactive'', JNum 0),
                        (''url'', JStr ''https://example.com/''),
                        (''device_strategy'', JStr ''desktop'')])]"
    by (simp add: handler_eval parse_eval)
  ultimately show ?thesis using unparsed by simp
qed

section \<open>Properties of the extraction\<close>

lemma getProp_nonnull: "v \<noteq> JNull \<Longrightarrow> getProp (Some v) p = Inr (ownProperty v p)"
  by (cases v) simp_all

lemma optProp_ownProperty: "optProp (Some v) p = ownProperty v p"
  by (cases v) simp_all

lemma foldl_optProp_None: "foldl optProp None ks = None"
  by (induction ks) simp_all

lemma optProp_chain: "foldl optProp (ownProperty v k) ks = pathValue v (k # ks)"
proof (induction ks arbitrary: v k)
  case Nil
  show ?case by (cases v) (simp_all split: option.splits)
next
  case (Cons a ks)
  show ?case
  proof (cases v)
    case (JObj kvs)
    show ?thesis
    proof (cases "map_of kvs k")
      case None
      with JObj show ?thesis by (simp add: foldl_optProp_None)
    next
      case (Some w)
      with JObj Cons.IH [of w a] show ?thesis by (simp add: optProp_ownProperty)
    qed
  qed (simp_all add: foldl_optProp_None)
qed

lemma cruxCategory_path:
  "cruxCategory (ownProperty data ''loadingExperience'') m =
     orElse (pathValue data [''loadingExperience'', ''metrics'', m, ''category'']) (JStr ''N/A'')"
  using optProp_chain [of data "''loadingExperience''" "[''metrics'', m, ''category'']"]
  by (simp add: cruxCategory_def)

lemma auditDisplayValue_path:
  "auditDisplayValue (ownProperty data ''lighthouseResult'') a =
     orElse (pathValue data [''lighthouseResult'', ''audits'', a, ''displayValue'']) (JStr ''N/A'')"
  using optProp_chain [of data "''lighthouseResult''" "[''audits'', a, ''displayValue'']"]
  by (simp add: auditDisplayValue_def)

lemma extractMetrics_null: "extractMetrics JNull = Inl TypeError"
  by (simp add: extractMetrics_def)

lemma extractMetrics_nonnull:
  assumes "data \<noteq> JNull"
  shows "extractMetrics data =
           Inr \<lparr> res_id = pathValue data [''id''],
                 cruxMetrics = map (sentinelOr data) trackedCrux,
                 lighthouseMetrics = map (sentinelOr data) trackedLighthouse,
                 databaseId = None \<rparr>"
proof -
  have "ownProperty data ''id'' = pathValue data [''id'']"
    using optProp_chain [of data "''id''" "[]"] by simp
  with assms show ?thesis
    by (simp add: extractMetrics_def getProp_nonnull cruxCategory_path auditDisplayValue_path
        trackedCrux_def trackedLighthouse_def sentinelOr_def)
qed

lemma map_of_sentinelOr:
  assumes "distinct (map fst table)" and "(name, path) \<in> set table"
  shows "map_of (map (sentinelOr data) table) name
           = Some (orElse (pathValue data path) (JStr ''N/A''))"
  using assms
proof (induction table)
  case Nil
  then show ?case by simp
next
  case (Cons entry table)
  show ?case
  proof (cases "entry = (name, path)")
    case True
    then show ?thesis by (simp add: sentinelOr_def)
  next
    case False
    with Cons.prems have later: "(name, path) \<in> set table" and "fst entry \<noteq> name"
      by (auto simp: rev_image_eqI)
    with Cons show ?thesis by (simp add: sentinelOr_def)
  qed
qed

lemma distinct_tracked:
  "distinct (map fst trackedCrux)" "distinct (map fst trackedLighthouse)"
  by (simp_all add: trackedCrux_def trackedLighthouse_def)

lemma orElse_falsy: "\<not> truthy v \<Longrightarrow> orElse v d = d"
  by (cases v) (simp_all add: orElse_def)

text \<open>
  C2. Extraction from a document that is not the literal \<^verbatim>\<open>null\<close> never throws, and
  every tracked path with an absent segment yields exactly the sentinel.
\<close>

theorem extraction_of_missing_paths:
  assumes "data \<noteq> JNull"
  shows "\<exists>result. extractMetrics data = Inr result
           \<and> (\<forall>(name, path) \<in> set trackedCrux.
                 pathValue data path = None \<longrightarrow>
                 map_of (cruxMetrics result) name = Some (JStr ''N/A''))
           \<and> (\<forall>(name, path) \<in> set trackedLighthouse.
                 pathValue data path = None \<longrightarrow>
                 map_of (lighthouseMetrics result) name = Some (JStr ''N/A''))"
proof -
  let ?result = "\<lparr> res_id = pathValue data [''id''],
                    cruxMetrics = map (sentinelOr data) trackedCrux,
                    lighthouseMetrics = map (sentinelOr data) trackedLighthouse,
                    databaseId = None \<rparr>"
  have "extractMetrics data = Inr ?result"
    using assms by (rule extractMetrics_nonnull)
  moreover have "map_of (cruxMetrics ?result) name = Some (JStr ''N/A'')"
    if "(name, path) \<in> set trackedCrux" and "pathValue data path = None" for name path
    using that by (simp add: map_of_sentinelOr [OF distinct_tracked(1)] orElse_falsy)
  moreover have "map_of (lighthouseMetrics ?result) name = Some (JStr ''N/A'')"
    if "(name, path) \<in> set trackedLighthouse" and "pathValue data path = None" for name path
    using that by (simp add: map_of_sentinelOr [OF distinct_tracked(2)] orElse_falsy)
  ultimately show ?thesis by blast
qed

theorem extraction_of_missing_paths_witness:
  "scenarioDocument \<noteq> JNull
   \<and> pathValue scenarioDocument
        [''loadingExperience'', ''metrics'', ''FIRST_CONTENTFUL_PAINT_MS'', ''category''] = None
   \<and> pathValue scenarioDocument
        [''lighthouseResult'', ''audits'', ''interactive'', ''displayValue''] = None
   \<and> (\<exists>result. extractMetrics scenarioDocument = Inr result
         \<and> map_of (cruxMetrics result) ''First Contentful Paint'' = Some (JStr ''N/A'')
         \<and> map_of (lighthouseMetrics result) ''Time To Interactive'' = Some (JStr ''N/A''))"
proof -
  have nonnull: "scenarioDocument \<noteq> JNull"
    by (simp add: scenarioDocument_def)
  have crux: "(''First Contentful Paint'',
               [''loadingExperience'', ''metrics'', ''FIRST_CONTENTFUL_PAINT_MS'', ''category''])
              \<in> set trackedCrux"
    by (simp add: trackedCrux_def)
  have audit: "(''Time To Interactive'',
                [''lighthouseResult'', ''audits'', ''interactive'', ''displayValue''])
               \<in> set trackedLighthouse"
    by (simp add: trackedLighthouse_def)
  have absent1: "pathValue scenarioDocument
        [''loadingExperience'', ''metrics'', ''FIRST_CONTENTFUL_PAINT_MS'', ''category''] = None"
    by (simp add: scenarioDocument_def)
  have absent2: "pathValue scenarioDocument
        [''lighthouseResult'', ''audits'', ''interactive'', ''displayValue''] = None"
    by (simp add: scenarioDocument_def)
  from extraction_of_missing_paths [OF nonnull] obtain result where
    r: "extractMetrics scenarioDocument = Inr result"
    and c: "\<forall>(name, path) \<in> set trackedCrux. pathValue scenarioDocument path = None \<longrightarrow>
              map_of (cruxMetrics result) name = Some (JStr ''N/A'')"
    and l: "\<forall>(name, path) \<in> set trackedLighthouse. pathValue scenarioDocument path = None \<longrightarrow>
              map_of (lighthouseMetrics result) name = Some (JStr ''N/A'')"
    by blast
  have "map_of (cruxMetrics result) ''First Contentful Paint'' = Some (JStr ''N/A'')"
    using bspec [OF c crux] absent1 by simp
  moreover
  have "map_of (lighthouseMetrics result) ''Time To Interactive'' = Some (JStr ''N/A'')"
    using bspec [OF l audit] absent2 by simp
  ultimately show ?thesis using nonnull absent1 absent2 r by simp
qed

text \<open>
  The document \<^verbatim>\<open>null\<close> has none of the seven paths, and on it the extraction throws
  at \<^verbatim>\<open>data.id\<close>; both handlers answer 500.
\<close>

theorem extraction_throws_on_null_document:
  "map (\<lambda>entry. pathValue JNull (snd entry)) (trackedCrux @ trackedLighthouse)
     = [None, None, None, None, None, None, None]
   \<and> extractMetrics JNull = Inl TypeError
   \<and> fst (POST (scenarioEnvironment (Some scenarioRequest)
                  (FetchResponse True 200 (Some JNull)) InsertThrows))
       = Response 500 (ErrorBody ''Failed to fetch PageSpeed data'')
   \<and> fst (POST_route (scenarioEnvironment (Some scenarioRequest)
                  (FetchResponse True 200 (Some JNull)) InsertThrows))
       = Response 500 (ErrorBody ''Failed to fetch PageSpeed data'')"
  by (simp add: handler_eval trackedCrux_def trackedLighthouse_def)

text \<open>
  C10. A tracked path whose value is falsy, present or not, yields the sentinel, and
  the sentinel is normalized to zero.
\<close>

theorem falsy_value_becomes_sentinel:
  assumes "extractMetrics data = Inr result"
  shows "(\<forall>(name, path) \<in> set trackedCrux.
            \<not> truthy (pathValue data path) \<longrightarrow>
            map_of (cruxMetrics result) name = Some (JStr ''N/A''))
       \<and> (\<forall>(name, path) \<in> set trackedLighthouse.
            \<not> truthy (pathValue data path) \<longrightarrow>
            map_of (lighthouseMetrics result) name = Some (JStr ''N/A'')
            \<and> parseMetricValue (map_of (lighthouseMetrics result) name) = Inr 0)"
proof -
  have nonnull: "data \<noteq> JNull"
    using assms by (auto simp: extractMetrics_null)
  from extractMetrics_nonnull [OF nonnull] assms
  have result: "cruxMetrics result = map (sentinelOr data) trackedCrux"
    "lighthouseMetrics result = map (sentinelOr data) trackedLighthouse"
    by auto
  have "map_of (cruxMetrics result) name = Some (JStr ''N/A'')"
    if "(name, path) \<in> set trackedCrux" and "\<not> truthy (pathValue data path)" for name path
    using that result by (simp add: map_of_sentinelOr [OF distinct_tracked(1)] orElse_falsy)
  moreover have "map_of (lighthouseMetrics result) name = Some (JStr ''N/A'')
                 \<and> parseMetricValue (map_of (lighthouseMetrics result) name) = Inr 0"
    if "(name, path) \<in> set trackedLighthouse" and "\<not> truthy (pathValue data path)" for name path
    using that result
    by (simp add: map_of_sentinelOr [OF distinct_tracked(2)] orElse_falsy parseMetricValue_def)
  ultimately show ?thesis by blast
qed

theorem falsy_value_becomes_sentinel_witness:
  "pathValue scenarioDocument [''lighthouseResult'', ''audits'', ''speed-index'', ''displayValue'']
     = Some (JStr [])
   \<and> (\<exists>result. extractMetrics scenarioDocument = Inr result
         \<and> map_of (lighthouseMetrics result) ''Speed Index'' = Some (JStr ''N/A'')
         \<and> parseMetricValue (map_of (lighthouseMetrics result) ''Speed Index'') = Inr 0)"
proof -
  obtain result where r: "extractMetrics scenarioDocument = Inr result"
    by (simp add: extractMetrics_def scenarioDocument_def)
  have present: "pathValue scenarioDocument
         [''lighthouseResult'', ''audits'', ''speed-index'', ''displayValue''] = Some (JStr [])"
    by (simp add: scenarioDocument_def)
  have entry: "(''Speed Index'', [''lighthouseResult'', ''audits'', ''speed-index'', ''displayValue''])
               \<in> set trackedLighthouse"
    by (simp add: trackedLighthouse_def)
  have "\<forall>(name, path) \<in> set trackedLighthouse.
            \<not> truthy (pathValue scenarioDocument path) \<longrightarrow>
            map_of (lighthouseMetrics result) name = Some (JStr ''N/A'')
            \<and> parseMetricValue (map_of (lighthouseMetrics result) name) = Inr 0"
    using falsy_value_becomes_sentinel [OF r] by (elim conjE)
  from bspec [OF this entry] present
  have "map_of (lighthouseMetrics result) ''Speed Index'' = Some (JStr ''N/A'')
        \<and> parseMetricValue (map_of (lighthouseMetrics result) ''Speed Index'') = Inr 0"
    by (simp add: parseMetricValue_def)
  with r present show ?thesis by (simp add: parseMetricValue_def)
qed

section \<open>Properties of the analysis endpoint\<close>

lemma POST_try_readable:
  assumes "requestJson env = Some body" and "body \<noteq> JNull"
    and "ownProperty body ''url'' = Some u" and "truthy (Some u)" and "convertsToString u"
    and "strategyOf body = JStr s"
  shows "POST_try env =
     (let q = \<lparr> q_url = u, q_strategy = Some (upperCase env s), q_key = keyParam (apiKey env) \<rparr> in
      case fetch env q of
        FetchRejected \<Rightarrow> (Inl NetworkError, [Fetch q])
      | FetchResponse ok st parsed \<Rightarrow>
          if \<not> ok then (Inl (HttpError st), [Fetch q])
          else
     (case parsed of
        None \<Rightarrow> (Inl SyntaxError, [Fetch q])
      | Some data \<Rightarrow>
     (case extractMetrics data of
        Inl e \<Rightarrow> (Inl e, [Fetch q])
      | Inr result \<Rightarrow>
     (case dbRecord result u (JStr s) of
        Inl e \<Rightarrow> (Inl e, [Fetch q])
      | Inr r \<Rightarrow>
          (Inr (Response 200 (ResultBody (saveResult result (storeInsert env r)))),
           [Fetch q, Insert r])))))"
  using assms
  by (simp add: POST_try_def getProp_nonnull strategyOf_def strategyParam_def Let_def
      split: option.splits)

lemma parseMetricValue_sentinelOr:
  assumes "case v of None \<Rightarrow> True | Some (JStr s) \<Rightarrow> True | Some w \<Rightarrow> \<not> truthy (Some w)"
  shows "\<exists>n. parseMetricValue (Some (orElse v (JStr ''N/A''))) = Inr n"
proof (cases "truthy v")
  case False
  then show ?thesis by (simp add: orElse_falsy parseMetricValue_def)
next
  case True
  with assms obtain s where "v = Some (JStr s)"
    by (cases v) (auto split: json.splits)
  with True show ?thesis
    by (simp add: orElse_def parseMetricValue_string_cases)
qed

lemma dbRecord_defined:
  assumes "data \<noteq> JNull" and "displayValuesParse data"
    and "extractMetrics data = Inr result"
  shows "\<exists>r. dbRecord result u strategy = Inr r"
proof -
  from extractMetrics_nonnull [OF assms(1)] assms(3)
  have lm: "lighthouseMetrics result = map (sentinelOr data) trackedLighthouse"
    by auto
  have ok: "\<exists>n. parseMetricValue (map_of (lighthouseMetrics result) name) = Inr n"
    if "(name, path) \<in> set trackedLighthouse" for name path
  proof -
    from assms(2) that
    have "case pathValue data path of None \<Rightarrow> True | Some (JStr s) \<Rightarrow> True
            | Some w \<Rightarrow> \<not> truthy (Some w)"
      unfolding displayValuesParse_def list_all_iff by fastforce
    from parseMetricValue_sentinelOr [OF this] that show ?thesis
      by (simp add: lm map_of_sentinelOr [OF distinct_tracked(2)])
  qed
  obtain fcp where "parseMetricValue (map_of (lighthouseMetrics result) ''First Contentful Paint'') = Inr fcp"
    using ok [of "''First Contentful Paint''"] by (auto simp: trackedLighthouse_def)
  moreover obtain si where "parseMetricValue (map_of (lighthouseMetrics result) ''Speed Index'') = Inr si"
    using ok [of "''Speed Index''"] by (auto simp: trackedLighthouse_def)
  moreover obtain lcp where "parseMetricValue (map_of (lighthouseMetrics result) ''Largest Contentful Paint'') = Inr lcp"
    using ok [of "''Largest Contentful Paint''"] by (auto simp: trackedLighthouse_def)
  moreover obtain tbt where "parseMetricValue (map_of (lighthouseMetrics result) ''Total Blocking Time'') = Inr tbt"
    using ok [of "''Total Blocking Time''"] by (auto simp: trackedLighthouse_def)
  moreover obtain tti where "parseMetricValue (map_of (lighthouseMetrics result) ''Time To Interactive'') = Inr tti"
    using ok [of "''Time To Interactive''"] by (auto simp: trackedLighthouse_def)
  ultimately show ?thesis by (simp add: dbRecord_def)
qed

text \<open>What the inner \<^verbatim>\<open>try\<close> does to the result, outcome by outcome.\<close>

lemma saveResult_fields:
  "res_id (saveResult result outcome) = res_id result"
  "cruxMetrics (saveResult result outcome) = cruxMetrics result"
  "lighthouseMetrics (saveResult result outcome) = lighthouseMetrics result"
  by (auto simp: saveResult_def split: insert_outcome.splits option.splits list.splits sum.splits)

lemma saveResult_failed:
  assumes "insertFailed outcome"
  shows "saveResult result outcome = result"
  using assms by (cases outcome) (simp_all add: saveResult_def insertFailed_def)

lemma saveResult_databaseId:
  assumes "databaseId result = None"
  shows "databaseId (saveResult result outcome) = Some i
           \<longleftrightarrow> (\<exists>row rest dbError. outcome = InsertReturns (Some (row # rest)) dbError
                  \<and> \<not> truthy dbError \<and> truthy (Some row) \<and> ownProperty row ''id'' = Some i)"
proof (cases outcome)
  case InsertThrows
  with assms show ?thesis by (simp add: saveResult_def)
next
  case (InsertReturns insertData dbError)
  show ?thesis
  proof (cases insertData)
    case None
    with InsertReturns assms show ?thesis by (simp add: saveResult_def)
  next
    case (Some rows)
    show ?thesis
    proof (cases rows)
      case Nil
      with Some InsertReturns assms show ?thesis by (simp add: saveResult_def)
    next
      case (Cons row rest)
      show ?thesis
      proof (cases "truthy (Some row)")
        case True
        then have "row \<noteq> JNull" by auto
        with True Cons Some InsertReturns assms show ?thesis
          by (simp add: saveResult_def getProp_nonnull)
      next
        case False
        with Cons Some InsertReturns assms show ?thesis by (simp add: saveResult_def)
      qed
    qed
  qed
qed

lemma extractMetrics_databaseId:
  "extractMetrics data = Inr result \<Longrightarrow> databaseId result = None"
  by (auto simp: extractMetrics_def split: sum.splits)

lemma POST_shapes:
  "(\<exists>r. fst (POST env) = Response 200 (ResultBody r))
   \<or> fst (POST env) = Response 400 (ErrorBody ''URL is required'')
   \<or> fst (POST env) = Response 500 (ErrorBody ''Failed to fetch PageSpeed data'')"
  by (simp add: POST_def POST_try_def Let_def
      split: option.split sum.split fetch_outcome.split prod.split)

text \<open>
  C9. A request whose body is not the literal \<^verbatim>\<open>null\<close> and whose \<^verbatim>\<open>url\<close> is missing or
  falsy is answered with 400 and \<^verbatim>\<open>URL is required\<close>, by both handlers, with no fetch and
  no insert (the event list is empty).
\<close>

theorem falsy_url_is_rejected:
  assumes "requestJson env = Some body" and "body \<noteq> JNull"
    and "\<not> truthy (ownProperty body ''url'')"
  shows "POST env = (Response 400 (ErrorBody ''URL is required''), [])
       \<and> POST_route env = (Response 400 (ErrorBody ''URL is required''), [])"
proof (cases "ownProperty body ''url''")
  case None
  with assms show ?thesis
    by (simp add: POST_def POST_try_def POST_route_def POST_route_try_def getProp_nonnull)
next
  case (Some u)
  with assms have "\<not> truthy (Some u)" by simp
  with Some assms show ?thesis
    by (simp add: POST_def POST_try_def POST_route_def POST_route_try_def getProp_nonnull)
qed

text \<open>The theorem on a body with an empty \<^verbatim>\<open>url\<close>, and on a body with none.\<close>

theorem falsy_url_is_rejected_witness:
  "POST (scenarioEnvironment (Some (JObj [(''url'', JStr [])]))
          (FetchResponse True 200 (Some scenarioDocument)) InsertThrows)
     = (Response 400 (ErrorBody ''URL is required''), [])
   \<and> POST_route (scenarioEnvironment (Some (JObj [(''strategy'', JStr ''mobile'')]))
          (FetchResponse True 200 (Some scenarioDocument)) InsertThrows)
     = (Response 400 (ErrorBody ''URL is required''), [])"
proof -
  let ?up = "FetchResponse True 200 (Some scenarioDocument)"
  have "POST (scenarioEnvironment (Some (JObj [(''url'', JStr [])])) ?up InsertThrows)
          = (Response 400 (ErrorBody ''URL is required''), [])"
    using falsy_url_is_rejected
      [of "scenarioEnvironment (Some (JObj [(''url'', JStr [])])) ?up InsertThrows"
          "JObj [(''url'', JStr [])]"]
    by (simp add: scenarioEnvironment_def)
  moreover
  have "POST_route (scenarioEnvironment (Some (JObj [(''strategy'', JStr ''mobile'')])) ?up InsertThrows)
          = (Response 400 (ErrorBody ''URL is required''), [])"
    using falsy_url_is_rejected
      [of "scenarioEnvironment (Some (JObj [(''strategy'', JStr ''mobile'')])) ?up InsertThrows"
          "JObj [(''strategy'', JStr ''mobile'')]"]
    by (simp add: scenarioEnvironment_def)
  ultimately show ?thesis by simp
qed

text \<open>
  The body \<^verbatim>\<open>null\<close> has no \<^verbatim>\<open>url\<close>, but destructuring it throws: both handlers answer
  500 with the generic message, not 400.
\<close>

theorem null_body_is_answered_500:
  "ownProperty JNull ''url'' = None
   \<and> POST (scenarioEnvironment (Some JNull)
             (FetchResponse True 200 (Some scenarioDocument)) InsertThrows)
       = (Response 500 (ErrorBody ''Failed to fetch PageSpeed data''), [])
   \<and> POST_route (scenarioEnvironment (Some JNull)
             (FetchResponse True 200 (Some scenarioDocument)) InsertThrows)
       = (Response 500 (ErrorBody ''Failed to fetch PageSpeed data''), [])"
  by (simp add: POST_def POST_try_def POST_route_def POST_route_try_def scenarioEnvironment_def)

lemma POST_events_try: "snd (POST env) = snd (POST_try env)"
  by (simp add: POST_def split: prod.splits sum.splits)

lemma POST_try_fetch_failed:
  assumes "Fetch q \<in> set (snd (POST_try env))"
    and "fetch env q = FetchRejected \<or> (\<exists>st parsed. fetch env q = FetchResponse False st parsed)"
  shows "\<exists>e. POST_try env = (Inl e, [Fetch q])"
  using assms
  by (fastforce simp: POST_try_def Let_def
      split: option.splits sum.splits fetch_outcome.splits if_splits)

lemma POST_reaches_store:
  assumes "requestJson env = Some body" and "body \<noteq> JNull"
    and "ownProperty body ''url'' = Some u" and "truthy (Some u)" and "convertsToString u"
    and "strategyOf body = JStr s"
    and "q = \<lparr> q_url = u, q_strategy = Some (upperCase env s), q_key = keyParam (apiKey env) \<rparr>"
    and "fetch env q = FetchResponse True st (Some data)"
    and "data \<noteq> JNull" and "displayValuesParse data"
  shows "\<exists>result r. extractMetrics data = Inr result
           \<and> dbRecord result u (JStr s) = Inr r
           \<and> POST env =
               (Response 200 (ResultBody (saveResult result (storeInsert env r))),
                [Fetch q, Insert r])"
proof -
  from extractMetrics_nonnull [OF \<open>data \<noteq> JNull\<close>]
  obtain result where result: "extractMetrics data = Inr result"
    by blast
  from dbRecord_defined [OF \<open>data \<noteq> JNull\<close> \<open>displayValuesParse data\<close> result]
  obtain r where r: "dbRecord result u (JStr s) = Inr r"
    by blast
  have "POST_try env =
          (Inr (Response 200 (ResultBody (saveResult result (storeInsert env r)))),
           [Fetch q, Insert r])"
    using assms(7,8) result r by (simp add: POST_try_readable [OF assms(1-6)] Let_def)
  then have "POST env =
          (Response 200 (ResultBody (saveResult result (storeInsert env r))), [Fetch q, Insert r])"
    by (simp add: POST_def)
  with result r show ?thesis by simp
qed

text \<open>
  C4. Whenever the handler has issued the upstream fetch and the fetch rejected or
  answered with a non-success status, the response is 500 with the generic message, and
  nothing but that one fetch has happened. For a readable request with a truthy \<^verbatim>\<open>url\<close>
  that converts to a string and a string (or absent) strategy, whose fetch is answered ok
  with a document other than \<^verbatim>\<open>null\<close> whose display values are strings or falsy, the
  response is 200. And every response whatsoever is a 200 with the metrics, the 400 of a
  falsy \<^verbatim>\<open>url\<close>, or that same 500: a failure never carries metric data.
\<close>

theorem upstream_failure_is_reported:
  "(Fetch q \<in> set (snd (POST env))
      \<and> (fetch env q = FetchRejected \<or> (\<exists>st parsed. fetch env q = FetchResponse False st parsed))
    \<longrightarrow> POST env = (Response 500 (ErrorBody ''Failed to fetch PageSpeed data''), [Fetch q]))
   \<and> (requestJson env = Some body \<and> body \<noteq> JNull
        \<and> ownProperty body ''url'' = Some u \<and> truthy (Some u) \<and> convertsToString u
        \<and> strategyOf body = JStr s
        \<and> fetch env \<lparr> q_url = u, q_strategy = Some (upperCase env s),
                        q_key = keyParam (apiKey env) \<rparr>
            = FetchResponse True st' (Some data')
        \<and> data' \<noteq> JNull \<and> displayValuesParse data'
      \<longrightarrow> statusOf (fst (POST env)) = 200)
   \<and> ((\<exists>payload. fst (POST env) = Response 200 (ResultBody payload))
        \<or> fst (POST env) = Response 400 (ErrorBody ''URL is required'')
        \<or> fst (POST env) = Response 500 (ErrorBody ''Failed to fetch PageSpeed data''))"
proof (intro conjI impI)
  assume "Fetch q \<in> set (snd (POST env))
      \<and> (fetch env q = FetchRejected \<or> (\<exists>st parsed. fetch env q = FetchResponse False st parsed))"
  then have "Fetch q \<in> set (snd (POST_try env))"
    and "fetch env q = FetchRejected \<or> (\<exists>st parsed. fetch env q = FetchResponse False st parsed)"
    by (simp_all add: POST_events_try)
  then have "\<exists>e. POST_try env = (Inl e, [Fetch q])"
    by (rule POST_try_fetch_failed)
  then show "POST env = (Response 500 (ErrorBody ''Failed to fetch PageSpeed data''), [Fetch q])"
    by (auto simp: POST_def)
next
  let ?q = "\<lparr> q_url = u, q_strategy = Some (upperCase env s), q_key = keyParam (apiKey env) \<rparr>"
  assume "requestJson env = Some body \<and> body \<noteq> JNull
        \<and> ownProperty body ''url'' = Some u \<and> truthy (Some u) \<and> convertsToString u
        \<and> strategyOf body = JStr s
        \<and> fetch env ?q = FetchResponse True st' (Some data')
        \<and> data' \<noteq> JNull \<and> displayValuesParse data'"
  then have "requestJson env = Some body" "body \<noteq> JNull" "ownProperty body ''url'' = Some u"
    "truthy (Some u)" "convertsToString u" "strategyOf body = JStr s" "?q = ?q"
    "fetch env ?q = FetchResponse True st' (Some data')" "data' \<noteq> JNull"
    "displayValuesParse data'"
    by simp_all
  from POST_reaches_store [OF this] show "statusOf (fst (POST env)) = 200"
    by auto
next
  show "(\<exists>payload. fst (POST env) = Response 200 (ResultBody payload))
        \<or> fst (POST env) = Response 400 (ErrorBody ''URL is required'')
        \<or> fst (POST env) = Response 500 (ErrorBody ''Failed to fetch PageSpeed data'')"
    by (rule POST_shapes)
qed

lemma POST_try_events:
  assumes "Insert r \<in> set (snd (POST_try env))"
  shows "\<exists>q st data result.
           fetch env q = FetchResponse True st (Some data)
         \<and> extractMetrics data = Inr result
         \<and> POST_try env =
             (Inr (Response 200 (ResultBody (saveResult result (storeInsert env r)))),
              [Fetch q, Insert r])"
  using assms
  by (fastforce simp: POST_try_def Let_def
      split: option.splits sum.splits fetch_outcome.splits if_splits)

lemma POST_events:
  assumes "Insert r \<in> set (snd (POST env))"
  shows "\<exists>q st data result.
           fetch env q = FetchResponse True st (Some data)
         \<and> extractMetrics data = Inr result
         \<and> POST env =
             (Response 200 (ResultBody (saveResult result (storeInsert env r))),
              [Fetch q, Insert r])"
proof -
  from assms have "Insert r \<in> set (snd (POST_try env))"
    by (simp add: POST_events_try)
  from POST_try_events [OF this] obtain q st data result where
    "fetch env q = FetchResponse True st (Some data)"
    and result: "extractMetrics data = Inr result"
    and "POST_try env =
           (Inr (Response 200 (ResultBody (saveResult result (storeInsert env r)))),
            [Fetch q, Insert r])"
    by blast
  then show ?thesis
    by (auto simp: POST_def)
qed

text \<open>
  C3. Whenever the handler has attempted the insert, the upstream fetch had succeeded,
  there was that one fetch and that one insert, and the response is 200 with the
  extracted metrics whatever the store did. If the insert failed (it threw, or reported
  an error) the payload is the extraction's, with no \<^verbatim>\<open>databaseId\<close>. The field
  \<^verbatim>\<open>databaseId\<close> is present exactly when the store reported no error and returned rows of
  which the first is truthy and has an \<^verbatim>\<open>id\<close>, and it is that \<^verbatim>\<open>id\<close>. And the handler does
  attempt the insert for every readable request with a truthy \<^verbatim>\<open>url\<close> that converts to a
  string and a string (or absent) strategy, whose upstream fetch succeeds with a document
  the normalization accepts.
\<close>

theorem store_failure_is_swallowed:
  "(Insert r \<in> set (snd (POST env)) \<longrightarrow>
      (\<exists>q st data result payload.
           fetch env q = FetchResponse True st (Some data)
         \<and> extractMetrics data = Inr result
         \<and> databaseId result = None
         \<and> POST env = (Response 200 (ResultBody payload), [Fetch q, Insert r])
         \<and> res_id payload = res_id result
         \<and> cruxMetrics payload = cruxMetrics result
         \<and> lighthouseMetrics payload = lighthouseMetrics result
         \<and> (insertFailed (storeInsert env r) \<longrightarrow> payload = result)
         \<and> (\<forall>i. databaseId payload = Some i
                \<longleftrightarrow> (\<exists>row rest dbError.
                       storeInsert env r = InsertReturns (Some (row # rest)) dbError
                     \<and> \<not> truthy dbError \<and> truthy (Some row)
                     \<and> ownProperty row ''id'' = Some i))))
   \<and> (requestJson env = Some body \<and> body \<noteq> JNull
        \<and> ownProperty body ''url'' = Some u \<and> truthy (Some u) \<and> convertsToString u
        \<and> strategyOf body = JStr s
        \<and> fetch env \<lparr> q_url = u, q_strategy = Some (upperCase env s),
                        q_key = keyParam (apiKey env) \<rparr>
            = FetchResponse True st' (Some data')
        \<and> data' \<noteq> JNull \<and> displayValuesParse data'
      \<longrightarrow> (\<exists>r'. snd (POST env)
                  = [Fetch \<lparr> q_url = u, q_strategy = Some (upperCase env s),
                             q_key = keyParam (apiKey env) \<rparr>, Insert r']))"
proof (intro conjI impI)
  assume "Insert r \<in> set (snd (POST env))"
  from POST_events [OF this] obtain q st data result where
    fetched: "fetch env q = FetchResponse True st (Some data)"
    and result: "extractMetrics data = Inr result"
    and post: "POST env =
      (Response 200 (ResultBody (saveResult result (storeInsert env r))), [Fetch q, Insert r])"
    by blast
  let ?payload = "saveResult result (storeInsert env r)"
  have none: "databaseId result = None"
    using result by (rule extractMetrics_databaseId)
  have failed: "insertFailed (storeInsert env r) \<longrightarrow> ?payload = result"
    by (simp add: saveResult_failed)
  have present: "\<forall>i. databaseId ?payload = Some i
                \<longleftrightarrow> (\<exists>row rest dbError.
                       storeInsert env r = InsertReturns (Some (row # rest)) dbError
                     \<and> \<not> truthy dbError \<and> truthy (Some row)
                     \<and> ownProperty row ''id'' = Some i)"
    using saveResult_databaseId [OF none] by blast
  from fetched result none post failed present
  show "\<exists>q st data result payload.
           fetch env q = FetchResponse True st (Some data)
         \<and> extractMetrics data = Inr result
         \<and> databaseId result = None
         \<and> POST env = (Response 200 (ResultBody payload), [Fetch q, Insert r])
         \<and> res_id payload = res_id result
         \<and> cruxMetrics payload = cruxMetrics result
         \<and> lighthouseMetrics payload = lighthouseMetrics result
         \<and> (insertFailed (storeInsert env r) \<longrightarrow> payload = result)
         \<and> (\<forall>i. databaseId payload = Some i
                \<longleftrightarrow> (\<exists>row rest dbError.
                       storeInsert env r = InsertReturns (Some (row # rest)) dbError
                     \<and> \<not> truthy dbError \<and> truthy (Some row)
                     \<and> ownProperty row ''id'' = Some i))"
    by (intro exI [of _ q] exI [of _ st] exI [of _ data] exI [of _ result] exI [of _ ?payload])
       (simp add: saveResult_fields)
next
  let ?q = "\<lparr> q_url = u, q_strategy = Some (upperCase env s), q_key = keyParam (apiKey env) \<rparr>"
  assume "requestJson env = Some body \<and> body \<noteq> JNull
        \<and> ownProperty body ''url'' = Some u \<and> truthy (Some u) \<and> convertsToString u
        \<and> strategyOf body = JStr s
        \<and> fetch env ?q = FetchResponse True st' (Some data')
        \<and> data' \<noteq> JNull \<and> displayValuesParse data'"
  then have "requestJson env = Some body" "body \<noteq> JNull" "ownProperty body ''url'' = Some u"
    "truthy (Some u)" "convertsToString u" "strategyOf body = JStr s" "?q = ?q"
    "fetch env ?q = FetchResponse True st' (Some data')" "data' \<noteq> JNull"
    "displayValuesParse data'"
    by simp_all
  from POST_reaches_store [OF this]
  show "\<exists>r'. snd (POST env) = [Fetch ?q, Insert r']"
    by auto
qed

lemma scenario_request:
  "requestJson (scenarioEnvironment (Some scenarioRequest) upstream store) = Some scenarioRequest"
  "scenarioRequest \<noteq> JNull"
  "ownProperty scenarioRequest ''url'' = Some (JStr ''https://example.com/'')"
  "truthy (Some (JStr ''https://example.com/''))"
  "convertsToString (JStr ''https://example.com/'')"
  "strategyOf scenarioRequest = JStr ''desktop''"
  by (simp_all add: scenarioEnvironment_def scenarioRequest_def strategyOf_def)

lemma scenario_upper: "asciiUpperCase ''desktop'' = ''DESKTOP''"
  by code_simp

lemma scenario_query:
  "\<lparr> q_url = JStr ''https://example.com/'',
     q_strategy = Some (upperCase (scenarioEnvironment (Some scenarioRequest) upstream store)
                          ''desktop''),
     q_key = keyParam (apiKey (scenarioEnvironment (Some scenarioRequest) upstream store)) \<rparr>
   = \<lparr> q_url = JStr ''https://example.com/'', q_strategy = Some ''DESKTOP'', q_key = None \<rparr>"
  by (simp add: scenarioEnvironment_def keyParam_def scenario_upper)

lemma scenario_document:
  "scenarioDocument \<noteq> JNull" "displayValuesParse scenarioDocument"
  by (simp_all add: scenarioDocument_def displayValuesParse_def trackedLighthouse_def)

lemma scenario_fetch:
  "fetch (scenarioEnvironment body upstream store) q = upstream"
  "storeInsert (scenarioEnvironment body upstream store) r = store"
  by (simp_all add: scenarioEnvironment_def)

theorem upstream_failure_is_reported_witness:
  "POST (scenarioEnvironment (Some scenarioRequest) (FetchResponse False 500 None) InsertThrows)
     = (Response 500 (ErrorBody ''Failed to fetch PageSpeed data''),
        [Fetch \<lparr> q_url = JStr ''https://example.com/'', q_strategy = Some ''DESKTOP'',
                 q_key = None \<rparr>])
   \<and> statusOf (fst (POST (scenarioEnvironment (Some scenarioRequest)
                        (FetchResponse True 200 (Some scenarioDocument))
                        (InsertReturns None (Some (JStr ''quota exceeded'')))))) = 200"
proof -
  let ?down = "scenarioEnvironment (Some scenarioRequest) (FetchResponse False 500 None) InsertThrows"
  let ?up = "scenarioEnvironment (Some scenarioRequest) (FetchResponse True 200 (Some scenarioDocument))
               (InsertReturns None (Some (JStr ''quota exceeded'')))"
  let ?q = "\<lparr> q_url = JStr ''https://example.com/'', q_strategy = Some ''DESKTOP'', q_key = None \<rparr>"
  have "Fetch ?q \<in> set (snd (POST ?down))"
    by (simp add: handler_eval scenario_upper)
  moreover have "fetch ?down ?q = FetchResponse False 500 None"
    by (rule scenario_fetch)
  ultimately
  have "POST ?down = (Response 500 (ErrorBody ''Failed to fetch PageSpeed data''), [Fetch ?q])"
    using upstream_failure_is_reported [where q = ?q and env = ?down, THEN conjunct1, THEN mp]
    by blast
  moreover
  have "statusOf (fst (POST ?up)) = 200"
    using upstream_failure_is_reported
      [where env = ?up and body = scenarioRequest and u = "JStr ''https://example.com/''"
         and s = "''desktop''" and st' = 200 and data' = scenarioDocument,
       THEN conjunct2, THEN conjunct1, THEN mp]
      scenario_request scenario_document
    by (simp add: scenario_fetch)
  ultimately show ?thesis by simp
qed

text \<open>
  Four requests that fail although no upstream fetch failed: one with no \<^verbatim>\<open>url\<close> (400,
  no fetch at all), one whose strategy is a number and one whose \<^verbatim>\<open>url\<close> is an object that
  does not convert to a string (500, no fetch at all), and one whose upstream answer is a
  200 with a JSON document in which a display value is the number 5 (500 after the fetch).
\<close>

theorem request_fails_without_upstream_failure:
  "POST (scenarioEnvironment (Some (JObj [])) (FetchResponse True 200 (Some scenarioDocument))
           InsertThrows)
     = (Response 400 (ErrorBody ''URL is required''), [])
   \<and> POST (scenarioEnvironment
             (Some (JObj [(''url'', JStr ''https://example.com/''), (''strategy'', JNum 5)]))
             (FetchResponse True 200 (Some scenarioDocument)) InsertThrows)
     = (Response 500 (ErrorBody ''Failed to fetch PageSpeed data''), [])
   \<and> POST (scenarioEnvironment
             (Some (JObj [(''url'', JObj [(''toString'', JNum 5)])]))
             (FetchResponse True 200 (Some scenarioDocument)) InsertThrows)
     = (Response 500 (ErrorBody ''Failed to fetch PageSpeed data''), [])
   \<and> fst (POST (scenarioEnvironment (Some scenarioRequest)
             (FetchResponse True 200
                (Some (JObj [(''lighthouseResult'',
                   JObj [(''audits'',
                      JObj [(''speed-index'', JObj [(''displayValue'', JNum 5)])])])])))
             InsertThrows))
     = Response 500 (ErrorBody ''Failed to fetch PageSpeed data'')"
  by (simp add: handler_eval parseMetricValue_def)

text \<open>The other handler converts the URL in the same place, and fails in the same way.\<close>

lemma POST_route_unconvertible_url:
  "POST_route (scenarioEnvironment
                 (Some (JObj [(''url'', JArr [JObj [(''toString'', JNum 5)]])]))
                 (FetchResponse True 200 (Some scenarioDocument)) InsertThrows)
     = (Response 500 (ErrorBody ''Failed to fetch PageSpeed data''), [])"
  by (simp add: handler_eval)

lemma scenario_attempted:
  "\<exists>payload r.
     POST (scenarioEnvironment (Some scenarioRequest)
             (FetchResponse True 200 (Some scenarioDocument)) store)
       = (Response 200 (ResultBody payload),
          [Fetch \<lparr> q_url = JStr ''https://example.com/'', q_strategy = Some ''DESKTOP'',
                   q_key = None \<rparr>, Insert r])"
proof -
  let ?env = "scenarioEnvironment (Some scenarioRequest)
                (FetchResponse True 200 (Some scenarioDocument)) store"
  have "\<exists>result r. extractMetrics scenarioDocument = Inr result
           \<and> dbRecord result (JStr ''https://example.com/'') (JStr ''desktop'') = Inr r
           \<and> POST ?env =
               (Response 200 (ResultBody (saveResult result (storeInsert ?env r))),
                [Fetch \<lparr> q_url = JStr ''https://example.com/'', q_strategy = Some ''DESKTOP'',
                         q_key = None \<rparr>, Insert r])"
    by (rule POST_reaches_store [OF scenario_request scenario_query [symmetric] _ scenario_document])
       (rule scenario_fetch)
  then show ?thesis by blast
qed

text \<open>
  The theorem in the scenario of the spec, where the insert throws, and where the store
  returns the row with the identifier 42.
\<close>

theorem store_failure_is_swallowed_witness:
  "insertFailed InsertThrows
   \<and> (\<exists>payload r.
        POST (scenarioEnvironment (Some scenarioRequest)
                (FetchResponse True 200 (Some scenarioDocument)) InsertThrows)
          = (Response 200 (ResultBody payload),
             [Fetch \<lparr> q_url = JStr ''https://example.com/'', q_strategy = Some ''DESKTOP'',
                      q_key = None \<rparr>, Insert r])
        \<and> extractMetrics scenarioDocument = Inr payload
        \<and> databaseId payload = None)
   \<and> (\<exists>payload r.
        POST (scenarioEnvironment (Some scenarioRequest)
                (FetchResponse True 200 (Some scenarioDocument))
                (InsertReturns (Some [JObj [(''id'', JNum 42)]]) None))
          = (Response 200 (ResultBody payload),
             [Fetch \<lparr> q_url = JStr ''https://example.com/'', q_strategy = Some ''DESKTOP'',
                      q_key = None \<rparr>, Insert r])
        \<and> databaseId payload = Some (JNum 42))"
proof -
  let ?doc = "FetchResponse True 200 (Some scenarioDocument)"
  let ?stored = "InsertReturns (Some [JObj [(''id'', JNum 42)]]) None"
  let ?q = "\<lparr> q_url = JStr ''https://example.com/'', q_strategy = Some ''DESKTOP'', q_key = None \<rparr>"
  let ?env = "\<lambda>store. scenarioEnvironment (Some scenarioRequest) ?doc store"
  have failed: "insertFailed InsertThrows"
    by (simp add: insertFailed_def)
  have outcome: "\<exists>payload r result.
          POST (?env store) = (Response 200 (ResultBody payload), [Fetch ?q, Insert r])
        \<and> extractMetrics scenarioDocument = Inr result
        \<and> databaseId result = None
        \<and> (insertFailed store \<longrightarrow> payload = result)
        \<and> (\<forall>i. databaseId payload = Some i
                \<longleftrightarrow> (\<exists>row rest dbError. store = InsertReturns (Some (row # rest)) dbError
                     \<and> \<not> truthy dbError \<and> truthy (Some row)
                     \<and> ownProperty row ''id'' = Some i))" for store
  proof -
    from scenario_attempted [of store] obtain payload0 r where
      run: "POST (?env store) = (Response 200 (ResultBody payload0), [Fetch ?q, Insert r])"
      by blast
    then have "Insert r \<in> set (snd (POST (?env store)))"
      by simp
    from store_failure_is_swallowed [THEN conjunct1, THEN mp, OF this]
    obtain q st data result payload where
      "fetch (?env store) q = FetchResponse True st (Some data)"
      and "extractMetrics data = Inr result" and "databaseId result = None"
      and post: "POST (?env store) = (Response 200 (ResultBody payload), [Fetch q, Insert r])"
      and "insertFailed (storeInsert (?env store) r) \<longrightarrow> payload = result"
      and "\<forall>i. databaseId payload = Some i
                \<longleftrightarrow> (\<exists>row rest dbError.
                       storeInsert (?env store) r = InsertReturns (Some (row # rest)) dbError
                     \<and> \<not> truthy dbError \<and> truthy (Some row)
                     \<and> ownProperty row ''id'' = Some i)"
      by blast
    moreover from post run have "q = ?q" by simp
    ultimately show ?thesis
      by (intro exI [of _ payload] exI [of _ r] exI [of _ result]) (simp add: scenario_fetch)
  qed
  from outcome [of InsertThrows] failed
  have first: "\<exists>payload r.
        POST (?env InsertThrows) = (Response 200 (ResultBody payload), [Fetch ?q, Insert r])
        \<and> extractMetrics scenarioDocument = Inr payload
        \<and> databaseId payload = None"
    by auto
  from outcome [of ?stored]
  have second: "\<exists>payload r.
        POST (?env ?stored) = (Response 200 (ResultBody payload), [Fetch ?q, Insert r])
        \<and> databaseId payload = Some (JNum 42)"
    by auto
  from failed first second show ?thesis by blast
qed

text \<open>
  Two inserts that did not fail, and yet no \<^verbatim>\<open>databaseId\<close>: the store reports no error and
  returns no row, as an empty array or as null.
\<close>

theorem insert_without_row_gives_no_databaseId:
  "\<not> insertFailed (InsertReturns (Some []) None)
   \<and> \<not> insertFailed (InsertReturns None None)
   \<and> (\<exists>payload r.
        POST (scenarioEnvironment (Some scenarioRequest)
                (FetchResponse True 200 (Some scenarioDocument)) (InsertReturns (Some []) None))
          = (Response 200 (ResultBody payload),
             [Fetch \<lparr> q_url = JStr ''https://example.com/'', q_strategy = Some ''DESKTOP'',
                      q_key = None \<rparr>, Insert r])
        \<and> databaseId payload = None)
   \<and> (\<exists>payload r.
        POST (scenarioEnvironment (Some scenarioRequest)
                (FetchResponse True 200 (Some scenarioDocument)) (InsertReturns None None))
          = (Response 200 (ResultBody payload),
             [Fetch \<lparr> q_url = JStr ''https://example.com/'', q_strategy = Some ''DESKTOP'',
                      q_key = None \<rparr>, Insert r])
        \<and> databaseId payload = None)"
  by (simp add: insertFailed_def handler_eval parse_eval scenario_upper)

section \<open>Properties of the filters\<close>

text \<open>
  C7. The filters keep, in their order, exactly the records that match: with a website
  selected, those whose URL is present and parses to a hostname equal to the selection;
  with a device class selected, those whose label equals it. With neither selected the
  list is returned as it is. Of the two records of the scenario only the first matches
  \<^verbatim>\<open>a.com\<close>.
\<close>

theorem filterResults_keeps_exactly:
  "filterResults hostname selectedWebsite strategyFilter results =
     filter (\<lambda>r. (\<forall>w. selectedWebsite = Some w \<and> w \<noteq> [] \<longrightarrow>
                        (\<exists>u. url r = Some u \<and> u \<noteq> [] \<and> hostname u = Some w))
                \<and> (strategyFilter \<noteq> ''all'' \<longrightarrow> device_strategy r = Some strategyFilter))
       results
   \<and> filterResults hostname None ''all'' results = results
   \<and> (hostname ''https://a.com/x'' = Some ''a.com''
        \<and> hostname ''https://www.a.com/y'' = Some ''www.a.com''
        \<and> url a = Some ''https://a.com/x'' \<and> url b = Some ''https://www.a.com/y''
      \<longrightarrow> filterResults hostname (Some ''a.com'') ''all'' [a, b] = [a])"
proof (intro conjI impI)
  have host: "matchesWebsite hostname w
                = (\<lambda>r. \<exists>u. url r = Some u \<and> u \<noteq> [] \<and> hostname u = Some w)" for w
    by (rule ext) (auto simp: matchesWebsite_def split: option.splits)
  show "filterResults hostname selectedWebsite strategyFilter results =
     filter (\<lambda>r. (\<forall>w. selectedWebsite = Some w \<and> w \<noteq> [] \<longrightarrow>
                        (\<exists>u. url r = Some u \<and> u \<noteq> [] \<and> hostname u = Some w))
                \<and> (strategyFilter \<noteq> ''all'' \<longrightarrow> device_strategy r = Some strategyFilter))
       results"
  proof (cases selectedWebsite)
    case None
    then show ?thesis
      by (simp add: filterResults_def filterByWebsite_def filterByStrategy_def)
  next
    case (Some w)
    then show ?thesis
      by (simp add: filterResults_def filterByWebsite_def filterByStrategy_def host
          cong: conj_cong)
  qed
next
  show "filterResults hostname None ''all'' results = results"
    by (simp add: filterResults_def filterByWebsite_def filterByStrategy_def)
next
  assume "hostname ''https://a.com/x'' = Some ''a.com''
        \<and> hostname ''https://www.a.com/y'' = Some ''www.a.com''
        \<and> url a = Some ''https://a.com/x'' \<and> url b = Some ''https://www.a.com/y''"
  then show "filterResults hostname (Some ''a.com'') ''all'' [a, b] = [a]"
    by (simp add: filterResults_def filterByWebsite_def filterByStrategy_def matchesWebsite_def)
qed

theorem filterResults_keeps_exactly_witness:
  "filterResults scenarioHostname (Some ''a.com'') ''all''
     [scenarioRecord 1 ''2024-01-01T00:00:00Z'' ''https://a.com/x'' ''desktop'' (23 / 10),
      scenarioRecord 2 ''2024-01-02T00:00:00Z'' ''https://www.a.com/y'' ''mobile'' 3,
      scenarioRecord 3 ''2024-01-03T00:00:00Z'' ''not a url'' ''desktop'' 1]
   = [scenarioRecord 1 ''2024-01-01T00:00:00Z'' ''https://a.com/x'' ''desktop'' (23 / 10)]
   \<and> filterResults scenarioHostname None ''mobile''
     [scenarioRecord 1 ''2024-01-01T00:00:00Z'' ''https://a.com/x'' ''desktop'' (23 / 10),
      scenarioRecord 2 ''2024-01-02T00:00:00Z'' ''https://www.a.com/y'' ''mobile'' 3]
   = [scenarioRecord 2 ''2024-01-02T00:00:00Z'' ''https://www.a.com/y'' ''mobile'' 3]
   \<and> filterResults scenarioHostname (Some ''a.com'') ''all''
     [scenarioRecord 1 ''2024-01-01T00:00:00Z'' ''https://a.com/x'' ''desktop'' (23 / 10),
      scenarioRecord 2 ''2024-01-02T00:00:00Z'' ''https://www.a.com/y'' ''mobile'' 3]
   = [scenarioRecord 1 ''2024-01-01T00:00:00Z'' ''https://a.com/x'' ''desktop'' (23 / 10)]"
proof -
  let ?a = "scenarioRecord 1 ''2024-01-01T00:00:00Z'' ''https://a.com/x'' ''desktop'' (23 / 10)"
  let ?b = "scenarioRecord 2 ''2024-01-02T00:00:00Z'' ''https://www.a.com/y'' ''mobile'' 3"
  let ?c = "scenarioRecord 3 ''2024-01-03T00:00:00Z'' ''not a url'' ''desktop'' 1"
  have hosts: "scenarioHostname ''https://a.com/x'' = Some ''a.com''
        \<and> scenarioHostname ''https://www.a.com/y'' = Some ''www.a.com''
        \<and> url ?a = Some ''https://a.com/x'' \<and> url ?b = Some ''https://www.a.com/y''"
    by (simp add: scenarioHostname_def scenarioRecord_def)
  have bad: "scenarioHostname ''not a url'' = None"
    by (simp add: scenarioHostname_def)
  note inst = filterResults_keeps_exactly [of scenarioHostname _ _ _ ?a ?b]
  have "filterResults scenarioHostname (Some ''a.com'') ''all'' [?a, ?b, ?c]
          = filter (\<lambda>r. (\<forall>w. Some ''a.com'' = Some w \<and> w \<noteq> [] \<longrightarrow>
                        (\<exists>u. url r = Some u \<and> u \<noteq> [] \<and> scenarioHostname u = Some w))
                \<and> (''all'' \<noteq> ''all'' \<longrightarrow> device_strategy r = Some ''all'')) [?a, ?b, ?c]"
    by (rule inst [THEN conjunct1])
  also have "\<dots> = [?a]"
    using hosts bad by (simp add: scenarioRecord_def)
  finally have first: "filterResults scenarioHostname (Some ''a.com'') ''all'' [?a, ?b, ?c] = [?a]" .
  have "filterResults scenarioHostname None ''mobile'' [?a, ?b]
          = filter (\<lambda>r. (\<forall>w. None = Some w \<and> w \<noteq> [] \<longrightarrow>
                        (\<exists>u. url r = Some u \<and> u \<noteq> [] \<and> scenarioHostname u = Some w))
                \<and> (''mobile'' \<noteq> ''all'' \<longrightarrow> device_strategy r = Some ''mobile'')) [?a, ?b]"
    by (rule inst [THEN conjunct1])
  also have "\<dots> = [?b]"
    by (simp add: scenarioRecord_def)
  finally have second: "filterResults scenarioHostname None ''mobile'' [?a, ?b] = [?b]" .
  have "filterResults scenarioHostname (Some ''a.com'') ''all'' [?a, ?b] = [?a]"
    using inst [of None "''all''" "[]", THEN conjunct2, THEN conjunct2] hosts by (rule mp)
  with first second show ?thesis by simp
qed

section \<open>Properties of the sort\<close>

text \<open>
  A comparator is read through a key: \<open>cmp a b \<le> 0\<close> exactly when the key of \<open>a\<close> is at
  most the key of \<open>b\<close>. On a list whose elements are compared that way, \<open>arraySort\<close>
  returns a rearrangement in key order, and returns a list already in key order as it is.
\<close>

lemma mset_insertSorted: "mset (insertSorted cmp x ys) = add_mset x (mset ys)"
proof (induction ys)
  case Nil
  show ?case by simp
next
  case (Cons y ys)
  then show ?case by simp
qed

lemma mset_arraySort: "mset (arraySort cmp xs) = mset xs"
  unfolding arraySort_def
  by (induction xs) (simp_all add: mset_insertSorted)

lemma set_arraySort: "set (arraySort cmp xs) = set xs"
  using mset_arraySort [of cmp xs] by (metis set_mset_mset)

lemma length_arraySort: "length (arraySort cmp xs) = length xs"
  using mset_arraySort [of cmp xs] by (metis size_mset)

lemma arraySort_Cons: "arraySort cmp (x # xs) = insertSorted cmp x (arraySort cmp xs)"
  by (simp add: arraySort_def)

lemma sorted_insertSorted:
  fixes key :: "'a \<Rightarrow> 'k::linorder"
  assumes "\<And>b. b \<in> set ys \<Longrightarrow> (cmp x b \<le> 0) = (key x \<le> key b)"
    and "sorted_wrt (\<lambda>a b. key a \<le> key b) ys"
  shows "sorted_wrt (\<lambda>a b. key a \<le> key b) (insertSorted cmp x ys)"
  using assms
proof (induction ys)
  case Nil
  show ?case by simp
next
  case (Cons y ys)
  show ?case
  proof (cases "cmp x y \<le> 0")
    case True
    with Cons.prems have "key x \<le> key y" by simp
    moreover from Cons.prems(2) have "\<forall>b \<in> set ys. key y \<le> key b" by simp
    ultimately have "\<forall>b \<in> set (y # ys). key x \<le> key b" by auto
    with True Cons.prems(2) show ?thesis by simp
  next
    case False
    with Cons.prems have "key y \<le> key x" by auto
    moreover from Cons.prems(2) have "\<forall>b \<in> set ys. key y \<le> key b" by simp
    ultimately have "\<forall>b \<in> set (insertSorted cmp x ys). key y \<le> key b"
      using mset_insertSorted [of cmp x ys] by (metis insert_iff set_mset_add_mset_insert set_mset_mset)
    moreover have "sorted_wrt (\<lambda>a b. key a \<le> key b) (insertSorted cmp x ys)"
      using Cons by simp
    ultimately show ?thesis using False by simp
  qed
qed

lemma sorted_arraySort:
  fixes key :: "'a \<Rightarrow> 'k::linorder"
  assumes "\<And>a b. a \<in> set xs \<Longrightarrow> b \<in> set xs \<Longrightarrow> (cmp a b \<le> 0) = (key a \<le> key b)"
  shows "sorted_wrt (\<lambda>a b. key a \<le> key b) (arraySort cmp xs)"
  using assms
proof (induction xs)
  case Nil
  show ?case by (simp add: arraySort_def)
next
  case (Cons x xs)
  have "sorted_wrt (\<lambda>a b. key a \<le> key b) (arraySort cmp xs)"
    using Cons by simp
  moreover have "(cmp x b \<le> 0) = (key x \<le> key b)" if "b \<in> set (arraySort cmp xs)" for b
    using that Cons.prems by (simp add: set_arraySort)
  ultimately show ?case
    unfolding arraySort_Cons by (intro sorted_insertSorted) simp_all
qed

lemma arraySort_sorted:
  fixes key :: "'a \<Rightarrow> 'k::linorder"
  assumes "\<And>a b. a \<in> set xs \<Longrightarrow> b \<in> set xs \<Longrightarrow> (cmp a b \<le> 0) = (key a \<le> key b)"
    and "sorted_wrt (\<lambda>a b. key a \<le> key b) xs"
  shows "arraySort cmp xs = xs"
  using assms
proof (induction xs)
  case Nil
  show ?case by (simp add: arraySort_def)
next
  case (Cons x xs)
  then have rest: "arraySort cmp xs = xs" by simp
  show ?case
  proof (cases xs)
    case Nil
    then show ?thesis by (simp add: arraySort_def)
  next
    case (Cons y ys)
    with Cons.prems have "cmp x y \<le> 0" by simp
    with Cons rest show ?thesis by (simp add: arraySort_Cons)
  qed
qed

lemma sortValue_metric:
  "field \<noteq> F_created_at \<Longrightarrow> sortValue dateParse field r \<noteq> None"
  by (simp add: sortValue_def split: option.splits)

lemma compareResults_key:
  assumes "sortValue dateParse field a = Some x" and "sortValue dateParse field b = Some y"
  shows "(compareResults dateParse field direction a b \<le> 0)
           = ((if direction = Asc then x else - x) \<le> (if direction = Asc then y else - y))"
  using assms by (auto simp: compareResults_def)

lemma sortValue_stated:
  "sortValue dateParse field r = statedValue dateParse field r"
  by (cases field)
     (simp_all add: sortValue_def createdTime_def zeroIfMissing_def split: option.splits)

lemma statedOrder_key:
  assumes "statedValue dateParse field a = Some x" and "statedValue dateParse field b = Some y"
  shows "statedOrder dateParse field direction a b
           = ((if direction = Asc then x else - x) \<le> (if direction = Asc then y else - y))"
  using assms by (auto simp: statedOrder_def)

lemma statedValue_defined:
  assumes "field = F_created_at \<longrightarrow>
             (\<forall>s. created_at r = Some s \<and> s \<noteq> [] \<longrightarrow> dateParse s \<noteq> None)"
  shows "\<exists>x. statedValue dateParse field r = Some x"
  using assms by (cases field) (auto split: option.splits)

text \<open>
  C5. On records whose creation time, where there is one, reads as a date (needed only
  when sorting by \<^verbatim>\<open>created_at\<close>), for each of the six fields and both directions: the
  result of \<open>sortResults\<close> is in the stated order, it is a rearrangement of the input, a
  list already in that order comes back unchanged, and so sorting twice is sorting once.
\<close>

theorem sortResults_monotonic:
  assumes "field = F_created_at \<longrightarrow>
             (\<forall>r \<in> set data. \<forall>s. created_at r = Some s \<and> s \<noteq> [] \<longrightarrow> dateParse s \<noteq> None)"
  shows "sorted_wrt (statedOrder dateParse field direction)
           (sortResults dateParse data field direction)
       \<and> mset (sortResults dateParse data field direction) = mset data
       \<and> (sorted_wrt (statedOrder dateParse field direction) data
            \<longrightarrow> sortResults dateParse data field direction = data)
       \<and> sortResults dateParse (sortResults dateParse data field direction) field direction
            = sortResults dateParse data field direction"
proof -
  define val where "val r = (case statedValue dateParse field r of None \<Rightarrow> 0 | Some v \<Rightarrow> v)" for r
  define key where "key r = (if direction = Asc then val r else - val r)" for r
  let ?cmp = "compareResults dateParse field direction"
  let ?sorted = "sortResults dateParse data field direction"
  have stated: "statedValue dateParse field r = Some (val r)" if "r \<in> set data" for r
  proof -
    from assms that have "field = F_created_at \<longrightarrow>
             (\<forall>s. created_at r = Some s \<and> s \<noteq> [] \<longrightarrow> dateParse s \<noteq> None)"
      by blast
    from statedValue_defined [OF this] show ?thesis
      by (auto simp: val_def)
  qed
  have cmp_key: "(?cmp a b \<le> 0) = (key a \<le> key b)" if "a \<in> set data" "b \<in> set data" for a b
    using compareResults_key [of dateParse field a "val a" b "val b" direction]
      stated [OF that(1)] stated [OF that(2)]
    by (simp add: key_def sortValue_stated)
  have order_key: "statedOrder dateParse field direction a b = (key a \<le> key b)"
    if "a \<in> set data" "b \<in> set data" for a b
    using statedOrder_key [OF stated [OF that(1)] stated [OF that(2)]] by (simp add: key_def)
  have same_order: "sorted_wrt (statedOrder dateParse field direction) xs
                      = sorted_wrt (\<lambda>a b. key a \<le> key b) xs" if "set xs \<subseteq> set data" for xs
    using that order_key by (induction xs) auto
  have members: "set ?sorted = set data"
    by (simp add: sortResults_def set_arraySort)
  have "sorted_wrt (\<lambda>a b. key a \<le> key b) ?sorted"
    unfolding sortResults_def using cmp_key by (rule sorted_arraySort)
  then have sorted: "sorted_wrt (statedOrder dateParse field direction) ?sorted"
    using members by (simp add: same_order)
  have perm: "mset ?sorted = mset data"
    by (simp add: sortResults_def mset_arraySort)
  have fixed: "sortResults dateParse xs field direction = xs"
    if "set xs \<subseteq> set data" and "sorted_wrt (statedOrder dateParse field direction) xs" for xs
  proof -
    from that have "sorted_wrt (\<lambda>a b. key a \<le> key b) xs"
      by (simp add: same_order)
    moreover have "(?cmp a b \<le> 0) = (key a \<le> key b)" if "a \<in> set xs" "b \<in> set xs" for a b
      using that \<open>set xs \<subseteq> set data\<close> cmp_key by blast
    ultimately show ?thesis
      unfolding sortResults_def by (intro arraySort_sorted [where key = key]) simp_all
  qed
  from fixed [of data] have "sorted_wrt (statedOrder dateParse field direction) data
            \<longrightarrow> sortResults dateParse data field direction = data"
    by simp
  moreover from fixed [of ?sorted] members sorted
  have "sortResults dateParse ?sorted field direction = ?sorted"
    by simp
  ultimately show ?thesis using sorted perm by simp
qed

lemmas client_eval =
  sortResults_def arraySort_def compareResults_def sortValue_def createdTime_def
  scenarioRecord_def scenarioDate_def

lemmas history_eval = historyA_def historyB_def historyC_def

text \<open>
  The theorem on a history of three records, by each of the six fields: the order the
  code produces, that it is the stated order, and that sorting it again changes nothing.
\<close>

theorem sortResults_monotonic_witness:
  "sortResults scenarioDate [historyA, historyB, historyC] F_created_at Asc
     = [historyB, historyA, historyC]
   \<and> sortResults scenarioDate [historyA, historyB, historyC] F_created_at Desc
     = [historyC, historyA, historyB]
   \<and> sortResults scenarioDate [historyA, historyB, historyC] F_first_content_paint Asc
     = [historyC, historyA, historyB]
   \<and> sortResults scenarioDate [historyA, historyB, historyC] F_speed_index Asc
     = [historyB, historyC, historyA]
   \<and> sortResults scenarioDate [historyA, historyB, historyC] F_largest_content_paint Asc
     = [historyA, historyC, historyB]
   \<and> sortResults scenarioDate [historyA, historyB, historyC] F_total_blocking_time Asc
     = [historyC, historyB, historyA]
   \<and> sortResults scenarioDate [historyA, historyB, historyC] F_time_to_interactive Desc
     = [historyC, historyB, historyA]
   \<and> sorted_wrt (statedOrder scenarioDate F_created_at Asc) [historyB, historyA, historyC]
   \<and> sorted_wrt (statedOrder scenarioDate F_created_at Desc) [historyC, historyA, historyB]
   \<and> sorted_wrt (statedOrder scenarioDate F_first_content_paint Asc)
       [historyC, historyA, historyB]
   \<and> sorted_wrt (statedOrder scenarioDate F_speed_index Asc) [historyB, historyC, historyA]
   \<and> sorted_wrt (statedOrder scenarioDate F_largest_content_paint Asc)
       [historyA, historyC, historyB]
   \<and> sorted_wrt (statedOrder scenarioDate F_total_blocking_time Asc)
       [historyC, historyB, historyA]
   \<and> sorted_wrt (statedOrder scenarioDate F_time_to_interactive Desc)
       [historyC, historyB, historyA]
   \<and> sortResults scenarioDate [historyC, historyB, historyA] F_total_blocking_time Asc
     = [historyC, historyB, historyA]
   \<and> sortResults scenarioDate [historyC, historyA, historyB] F_created_at Desc
     = [historyC, historyA, historyB]"
proof -
  let ?data = "[historyA, historyB, historyC]"
  have dated: "field = F_created_at \<longrightarrow>
       (\<forall>r \<in> set ?data. \<forall>s. created_at r = Some s \<and> s \<noteq> [] \<longrightarrow> scenarioDate s \<noteq> None)"
    for field
    by (simp add: history_eval scenarioDate_def)
  have created_asc: "sortResults scenarioDate ?data F_created_at Asc
                       = [historyB, historyA, historyC]"
    by (simp add: client_eval history_eval)
  have created_desc: "sortResults scenarioDate ?data F_created_at Desc
                        = [historyC, historyA, historyB]"
    by (simp add: client_eval history_eval)
  have fcp: "sortResults scenarioDate ?data F_first_content_paint Asc
               = [historyC, historyA, historyB]"
    by (simp add: client_eval history_eval)
  have si: "sortResults scenarioDate ?data F_speed_index Asc = [historyB, historyC, historyA]"
    by (simp add: client_eval history_eval)
  have lcp: "sortResults scenarioDate ?data F_largest_content_paint Asc
               = [historyA, historyC, historyB]"
    by (simp add: client_eval history_eval)
  have tbt: "sortResults scenarioDate ?data F_total_blocking_time Asc
               = [historyC, historyB, historyA]"
    by (simp add: client_eval history_eval)
  have tti: "sortResults scenarioDate ?data F_time_to_interactive Desc
               = [historyC, historyB, historyA]"
    by (simp add: client_eval history_eval)
  note stated = sortResults_monotonic [OF dated]
  have "sorted_wrt (statedOrder scenarioDate F_created_at Asc) [historyB, historyA, historyC]"
    using stated [of F_created_at Asc] unfolding created_asc by (rule conjunct1)
  moreover
  have "sorted_wrt (statedOrder scenarioDate F_created_at Desc) [historyC, historyA, historyB]"
    using stated [of F_created_at Desc] unfolding created_desc by (rule conjunct1)
  moreover
  have "sorted_wrt (statedOrder scenarioDate F_first_content_paint Asc)
          [historyC, historyA, historyB]"
    using stated [of F_first_content_paint Asc] unfolding fcp by (rule conjunct1)
  moreover
  have "sorted_wrt (statedOrder scenarioDate F_speed_index Asc) [historyB, historyC, historyA]"
    using stated [of F_speed_index Asc] unfolding si by (rule conjunct1)
  moreover
  have "sorted_wrt (statedOrder scenarioDate F_largest_content_paint Asc)
          [historyA, historyC, historyB]"
    using stated [of F_largest_content_paint Asc] unfolding lcp by (rule conjunct1)
  moreover
  have "sorted_wrt (statedOrder scenarioDate F_total_blocking_time Asc)
          [historyC, historyB, historyA]"
    using stated [of F_total_blocking_time Asc] unfolding tbt by (rule conjunct1)
  moreover
  have "sorted_wrt (statedOrder scenarioDate F_time_to_interactive Desc)
          [historyC, historyB, historyA]"
    using stated [of F_time_to_interactive Desc] unfolding tti by (rule conjunct1)
  moreover
  have "sortResults scenarioDate [historyC, historyB, historyA] F_total_blocking_time Asc
          = [historyC, historyB, historyA]"
    using stated [of F_total_blocking_time Asc] unfolding tbt by simp
  moreover
  have "sortResults scenarioDate [historyC, historyA, historyB] F_created_at Desc
          = [historyC, historyA, historyB]"
    using stated [of F_created_at Desc] unfolding created_desc by simp
  ultimately show ?thesis
    using created_asc created_desc fcp si lcp tbt tti by simp
qed

section \<open>Properties of the grouping\<close>

lemma addToGroupMap_host:
  "addToGroupMap hostname m r =
     (case recordHost hostname r of None \<Rightarrow> m | Some d \<Rightarrow> pushResult d r m)"
  by (simp add: addToGroupMap_def recordHost_def split: option.splits)

lemma keys_pushResult:
  "map fst (pushResult d r m) = (if d \<in> fst ` set m then map fst m else map fst m @ [d])"
proof (induction m)
  case Nil
  show ?case by simp
next
  case (Cons entry m)
  obtain k rs where "entry = (k, rs)" by (cases entry)
  with Cons show ?case by auto
qed

lemma map_of_pushResult:
  "map_of (pushResult d r m) =
     (map_of m)(d \<mapsto> (case map_of m d of None \<Rightarrow> [r] | Some rs \<Rightarrow> rs @ [r]))"
proof (induction m)
  case Nil
  show ?case by simp
next
  case (Cons entry m)
  obtain k rs where "entry = (k, rs)" by (cases entry)
  with Cons show ?case by (auto simp: fun_eq_iff)
qed

lemma groupMap_snoc:
  "groupMap hostname (rs @ [r]) = addToGroupMap hostname (groupMap hostname rs) r"
  by (simp add: groupMap_def)

lemma distinct_groupMap: "distinct (map fst (groupMap hostname rs))"
proof (induction rs rule: rev_induct)
  case Nil
  show ?case by (simp add: groupMap_def)
next
  case (snoc r rs)
  then show ?case
    by (auto simp: groupMap_snoc addToGroupMap_host keys_pushResult split: option.splits)
qed

lemma map_of_groupMap:
  "map_of (groupMap hostname rs) d =
     (if \<exists>r \<in> set rs. recordHost hostname r = Some d
      then Some (filter (\<lambda>r. recordHost hostname r = Some d) rs) else None)"
proof (induction rs rule: rev_induct)
  case Nil
  show ?case by (simp add: groupMap_def)
next
  case (snoc r rs)
  show ?case
  proof (cases "recordHost hostname r")
    case None
    with snoc show ?thesis
      by (auto simp: groupMap_snoc addToGroupMap_host)
  next
    case (Some d')
    show ?thesis
    proof (cases "d' = d")
      case True
      with Some snoc show ?thesis
        by (auto simp: groupMap_snoc addToGroupMap_host map_of_pushResult filter_empty_conv)
    next
      case False
      with Some snoc show ?thesis
        by (auto simp: groupMap_snoc addToGroupMap_host map_of_pushResult)
    qed
  qed
qed

lemma groupMap_entry:
  assumes "(d, xs) \<in> set (groupMap hostname rs)"
  shows "xs = filter (\<lambda>r. recordHost hostname r = Some d) rs \<and> xs \<noteq> []"
proof -
  from assms distinct_groupMap [of hostname rs]
  have "map_of (groupMap hostname rs) d = Some xs"
    by simp
  then show ?thesis
    by (auto simp: map_of_groupMap filter_empty_conv split: if_splits)
qed

lemma keys_groupMap:
  "set (map fst (groupMap hostname rs)) = {d. \<exists>r \<in> set rs. recordHost hostname r = Some d}"
proof -
  have "fst ` set (groupMap hostname rs) = dom (map_of (groupMap hostname rs))"
    by (simp add: dom_map_of_conv_image_fst)
  also have "\<dots> = {d. \<exists>r \<in> set rs. recordHost hostname r = Some d}"
    by (auto simp: dom_def map_of_groupMap)
  finally show ?thesis by simp
qed

lemma collect_all_Inr:
  assumes "\<And>x. x \<in> set xs \<Longrightarrow> \<exists>v. f x = Inr v \<and> P x v"
  shows "\<exists>vs. collect (map f xs) = Inr vs \<and> list_all2 P xs vs"
  using assms
proof (induction xs)
  case Nil
  show ?case by simp
next
  case (Cons x xs)
  from Cons.prems obtain v where v: "f x = Inr v" "P x v" by auto
  from Cons obtain vs where vs: "collect (map f xs) = Inr vs" "list_all2 P xs vs" by auto
  from v vs show ?case by simp
qed

lemma byCreatedDesc_key:
  assumes "createdTime dateParse a = Some ta" and "createdTime dateParse b = Some tb"
  shows "(byCreatedDesc dateParse a b \<le> 0) = (- ta \<le> - tb)"
  using assms by (simp add: byCreatedDesc_def)

lemma byLastTestedDesc_key:
  assumes "dateParse (wg_lastTested a) = Some ta" and "dateParse (wg_lastTested b) = Some tb"
  shows "(byLastTestedDesc dateParse a b \<le> 0) = (- ta \<le> - tb)"
  using assms by (simp add: byLastTestedDesc_def)

lemma makeGroup_entry:
  assumes "xs \<noteq> []"
    and host: "\<And>r. r \<in> set xs \<Longrightarrow> recordHost hostname r = Some d"
    and dated: "\<And>r. r \<in> set xs \<Longrightarrow> \<exists>s t. created_at r = Some s \<and> s \<noteq> [] \<and> dateParse s = Some t"
  shows "\<exists>g. makeGroup dateParse (d, xs) = Inr g
           \<and> wg_domain g = d
           \<and> mset (wg_results g) = mset xs
           \<and> wg_count g = length (wg_results g)
           \<and> sorted_wrt (\<lambda>a b. notEarlier (createdTime dateParse a) (createdTime dateParse b))
                (wg_results g)
           \<and> (\<exists>r0 rest. wg_results g = r0 # rest \<and> url r0 = Some (wg_url g)
                  \<and> created_at r0 = Some (wg_lastTested g))
           \<and> dateParse (wg_lastTested g) \<noteq> None"
proof -
  let ?sorted = "arraySort (byCreatedDesc dateParse) xs"
  define key where "key r = - (case createdTime dateParse r of None \<Rightarrow> 0 | Some t \<Rightarrow> t)" for r
  have time: "\<exists>t. createdTime dateParse r = Some t" if "r \<in> set xs" for r
    using dated [OF that] by (auto simp: createdTime_def)
  have cmp: "(byCreatedDesc dateParse a b \<le> 0) = (key a \<le> key b)"
    if "a \<in> set xs" "b \<in> set xs" for a b
  proof -
    from time [OF that(1)] obtain ta where ta: "createdTime dateParse a = Some ta" by blast
    from time [OF that(2)] obtain tb where tb: "createdTime dateParse b = Some tb" by blast
    from byCreatedDesc_key [OF ta tb] ta tb show ?thesis by (simp add: key_def)
  qed
  have members: "set ?sorted = set xs"
    by (rule set_arraySort)
  have "sorted_wrt (\<lambda>a b. key a \<le> key b) ?sorted"
    using cmp by (rule sorted_arraySort)
  moreover have "notEarlier (createdTime dateParse a) (createdTime dateParse b)"
    if "a \<in> set ?sorted" "b \<in> set ?sorted" "key a \<le> key b" for a b
  proof -
    from that members time obtain ta tb where
      "createdTime dateParse a = Some ta" "createdTime dateParse b = Some tb"
      by blast
    with that(3) show ?thesis by (simp add: key_def notEarlier_def)
  qed
  ultimately have ordered:
    "sorted_wrt (\<lambda>a b. notEarlier (createdTime dateParse a) (createdTime dateParse b)) ?sorted"
    by (rule sorted_wrt_mono_rel [rotated]) 
  from \<open>xs \<noteq> []\<close> have "?sorted \<noteq> []"
    using length_arraySort [of "byCreatedDesc dateParse" xs] by auto
  then obtain r0 rest where split: "?sorted = r0 # rest"
    by (cases ?sorted) auto
  then have "r0 \<in> set xs"
    using members by auto
  from host [OF this] obtain u where u: "url r0 = Some u" "u \<noteq> []"
    by (auto simp: recordHost_def split: option.splits if_splits)
  from dated [OF \<open>r0 \<in> set xs\<close>] obtain s t where
    s: "created_at r0 = Some s" "s \<noteq> []" "dateParse s = Some t"
    by blast
  let ?g = "\<lparr> wg_url = u, wg_domain = d, wg_count = length ?sorted, wg_lastTested = s,
              wg_results = ?sorted \<rparr>"
  have "makeGroup dateParse (d, xs) = Inr ?g"
    using split u s by (simp add: makeGroup_def Let_def)
  moreover have "mset (wg_results ?g) = mset xs"
    by (simp add: mset_arraySort)
  ultimately show ?thesis
    using ordered split u s by (intro exI [of _ ?g]) simp
qed

text \<open>
  C6. On records that carry a creation time the platform reads as a date, the grouping
  returns (it does not throw) one group per hostname that occurs among the records with a
  parseable URL, and no group twice. A group holds exactly the records of its hostname,
  most recent first, with their number as count; its URL and its \<^verbatim>\<open>lastTested\<close> are those
  of its first, that is most recent, record. The groups stand most recent first. The
  result is a function of the records (and of the platform's date and URL parsing) alone,
  so grouping the same collection again gives the same groups in the same order.
\<close>

theorem fetchWebsiteGroups_partition:
  assumes dated: "\<forall>r \<in> set results. \<exists>s t. created_at r = Some s \<and> s \<noteq> [] \<and> dateParse s = Some t"
  shows "\<exists>groups. fetchWebsiteGroups dateParse hostname results = Inr groups
     \<and> distinct (map wg_domain groups)
     \<and> set (map wg_domain groups) = {d. \<exists>r \<in> set results. recordHost hostname r = Some d}
     \<and> (\<forall>g \<in> set groups.
            mset (wg_results g)
              = mset (filter (\<lambda>r. recordHost hostname r = Some (wg_domain g)) results)
          \<and> wg_count g = length (wg_results g)
          \<and> sorted_wrt (\<lambda>a b. notEarlier (createdTime dateParse a) (createdTime dateParse b))
               (wg_results g)
          \<and> (\<exists>r0 rest. wg_results g = r0 # rest \<and> url r0 = Some (wg_url g)
                 \<and> created_at r0 = Some (wg_lastTested g)))
     \<and> sorted_wrt (\<lambda>g g'. notEarlier (dateParse (wg_lastTested g)) (dateParse (wg_lastTested g')))
          groups"
proof -
  let ?H = "recordHost hostname"
  let ?entries = "groupMap hostname results"
  let ?good = "\<lambda>entry g.
       wg_domain g = fst entry
     \<and> mset (wg_results g) = mset (filter (\<lambda>r. ?H r = Some (wg_domain g)) results)
     \<and> wg_count g = length (wg_results g)
     \<and> sorted_wrt (\<lambda>a b. notEarlier (createdTime dateParse a) (createdTime dateParse b))
          (wg_results g)
     \<and> (\<exists>r0 rest. wg_results g = r0 # rest \<and> url r0 = Some (wg_url g)
            \<and> created_at r0 = Some (wg_lastTested g))
     \<and> dateParse (wg_lastTested g) \<noteq> None"
  have each: "\<exists>g. makeGroup dateParse entry = Inr g \<and> ?good entry g"
    if "entry \<in> set ?entries" for entry
  proof -
    obtain d xs where entry: "entry = (d, xs)" by (cases entry)
    with that have "(d, xs) \<in> set ?entries" by simp
    from groupMap_entry [OF this]
    have xs: "xs = filter (\<lambda>r. ?H r = Some d) results" "xs \<noteq> []"
      by blast+
    have "\<exists>g. makeGroup dateParse (d, xs) = Inr g
           \<and> wg_domain g = d
           \<and> mset (wg_results g) = mset xs
           \<and> wg_count g = length (wg_results g)
           \<and> sorted_wrt (\<lambda>a b. notEarlier (createdTime dateParse a) (createdTime dateParse b))
                (wg_results g)
           \<and> (\<exists>r0 rest. wg_results g = r0 # rest \<and> url r0 = Some (wg_url g)
                  \<and> created_at r0 = Some (wg_lastTested g))
           \<and> dateParse (wg_lastTested g) \<noteq> None"
    proof (rule makeGroup_entry [OF xs(2)])
      fix r assume "r \<in> set xs"
      with xs(1) show "?H r = Some d" by simp
    next
      fix r assume "r \<in> set xs"
      with xs(1) have "r \<in> set results" by simp
      with dated show "\<exists>s t. created_at r = Some s \<and> s \<noteq> [] \<and> dateParse s = Some t"
        by blast
    qed
    with entry xs(1) show ?thesis by auto
  qed
  from collect_all_Inr [of ?entries "makeGroup dateParse" ?good, OF each]
  obtain made where made: "collect (map (makeGroup dateParse) ?entries) = Inr made"
    and rel: "list_all2 ?good ?entries made"
    by blast
  let ?groups = "arraySort (byLastTestedDesc dateParse) made"
  have result: "fetchWebsiteGroups dateParse hostname results = Inr ?groups"
    by (simp add: fetchWebsiteGroups_def made)
  have domains: "map wg_domain made = map fst ?entries"
    using rel by (induction rule: list_all2_induct) simp_all
  have good: "\<exists>entry. ?good entry g" if "g \<in> set made" for g
    using rel that by (auto simp: list_all2_conv_all_nth in_set_conv_nth)
  have members: "set ?groups = set made"
    by (rule set_arraySort)
  have "mset (map wg_domain ?groups) = mset (map wg_domain made)"
    by (simp add: mset_arraySort)
  moreover have "distinct (map wg_domain made)"
    by (simp add: domains distinct_groupMap)
  ultimately have no_repeat: "distinct (map wg_domain ?groups)"
    by (metis mset_eq_imp_distinct_iff)
  have keys: "set (map wg_domain ?groups) = {d. \<exists>r \<in> set results. ?H r = Some d}"
  proof -
    have "set (map wg_domain ?groups) = set (map wg_domain made)"
      using members by simp
    then show ?thesis by (simp only: domains keys_groupMap)
  qed
  define key where "key g = - (case dateParse (wg_lastTested g) of None \<Rightarrow> 0 | Some t \<Rightarrow> t)"
    for g :: WebsiteGroup
  have time: "\<exists>t. dateParse (wg_lastTested g) = Some t" if "g \<in> set made" for g
    using good [OF that] by auto
  have cmp: "(byLastTestedDesc dateParse a b \<le> 0) = (key a \<le> key b)"
    if "a \<in> set made" "b \<in> set made" for a b
  proof -
    from time [OF that(1)] obtain ta where ta: "dateParse (wg_lastTested a) = Some ta" by blast
    from time [OF that(2)] obtain tb where tb: "dateParse (wg_lastTested b) = Some tb" by blast
    from byLastTestedDesc_key [OF ta tb] ta tb show ?thesis by (simp add: key_def)
  qed
  have "sorted_wrt (\<lambda>a b. key a \<le> key b) ?groups"
    using cmp by (rule sorted_arraySort)
  moreover have "notEarlier (dateParse (wg_lastTested a)) (dateParse (wg_lastTested b))"
    if "a \<in> set ?groups" "b \<in> set ?groups" "key a \<le> key b" for a b
  proof -
    from that members time obtain ta tb where
      "dateParse (wg_lastTested a) = Some ta" "dateParse (wg_lastTested b) = Some tb"
      by blast
    with that(3) show ?thesis by (simp add: key_def notEarlier_def)
  qed
  ultimately have ordered:
    "sorted_wrt (\<lambda>g g'. notEarlier (dateParse (wg_lastTested g)) (dateParse (wg_lastTested g')))
       ?groups"
    by (rule sorted_wrt_mono_rel [rotated])
  have inside: "mset (wg_results g) = mset (filter (\<lambda>r. ?H r = Some (wg_domain g)) results)
          \<and> wg_count g = length (wg_results g)
          \<and> sorted_wrt (\<lambda>a b. notEarlier (createdTime dateParse a) (createdTime dateParse b))
               (wg_results g)
          \<and> (\<exists>r0 rest. wg_results g = r0 # rest \<and> url r0 = Some (wg_url g)
                 \<and> created_at r0 = Some (wg_lastTested g))"
    if "g \<in> set ?groups" for g
  proof -
    from that members have "g \<in> set made" by simp
    from good [OF this] show ?thesis by blast
  qed
  from result no_repeat keys inside ordered show ?thesis
    by (intro exI [of _ ?groups]) (simp only: simp_thms, blast)
qed

lemmas grouping_eval =
  fetchWebsiteGroups_def groupMap_def addToGroupMap_def makeGroup_def arraySort_def
  byCreatedDesc_def byLastTestedDesc_def createdTime_def scenarioRecord_def scenarioDate_def
  scenarioHostname_def Let_def

theorem fetchWebsiteGroups_partition_witness:
  "fetchWebsiteGroups scenarioDate scenarioHostname
     [scenarioRecord 1 ''2024-01-02T00:00:00Z'' ''https://a.com/x'' ''desktop'' (23 / 10),
      scenarioRecord 2 ''2024-01-01T00:00:00Z'' ''https://www.a.com/y'' ''mobile'' 3,
      scenarioRecord 3 ''2024-01-03T00:00:00Z'' ''https://a.com/x'' ''mobile'' 1,
      scenarioRecord 4 ''2024-01-03T00:00:00Z'' ''not a url'' ''desktop'' 2]
   = Inr [\<lparr> wg_url = ''https://a.com/x'', wg_domain = ''a.com'', wg_count = 2,
             wg_lastTested = ''2024-01-03T00:00:00Z'',
             wg_results =
               [scenarioRecord 3 ''2024-01-03T00:00:00Z'' ''https://a.com/x'' ''mobile'' 1,
                scenarioRecord 1 ''2024-01-02T00:00:00Z'' ''https://a.com/x'' ''desktop'' (23 / 10)] \<rparr>,
          \<lparr> wg_url = ''https://www.a.com/y'', wg_domain = ''www.a.com'', wg_count = 1,
             wg_lastTested = ''2024-01-01T00:00:00Z'',
             wg_results =
               [scenarioRecord 2 ''2024-01-01T00:00:00Z'' ''https://www.a.com/y'' ''mobile'' 3] \<rparr>]
   \<and> sorted_wrt (\<lambda>g g'. notEarlier (scenarioDate (wg_lastTested g)) (scenarioDate (wg_lastTested g')))
       [\<lparr> wg_url = ''https://a.com/x'', wg_domain = ''a.com'', wg_count = 2,
           wg_lastTested = ''2024-01-03T00:00:00Z'',
           wg_results =
             [scenarioRecord 3 ''2024-01-03T00:00:00Z'' ''https://a.com/x'' ''mobile'' 1,
              scenarioRecord 1 ''2024-01-02T00:00:00Z'' ''https://a.com/x'' ''desktop'' (23 / 10)] \<rparr>,
        \<lparr> wg_url = ''https://www.a.com/y'', wg_domain = ''www.a.com'', wg_count = 1,
           wg_lastTested = ''2024-01-01T00:00:00Z'',
           wg_results =
             [scenarioRecord 2 ''2024-01-01T00:00:00Z'' ''https://www.a.com/y'' ''mobile'' 3] \<rparr>]"
proof -
  let ?a = "scenarioRecord 1 ''2024-01-02T00:00:00Z'' ''https://a.com/x'' ''desktop'' (23 / 10)"
  let ?b = "scenarioRecord 2 ''2024-01-01T00:00:00Z'' ''https://www.a.com/y'' ''mobile'' 3"
  let ?c = "scenarioRecord 3 ''2024-01-03T00:00:00Z'' ''https://a.com/x'' ''mobile'' 1"
  let ?d = "scenarioRecord 4 ''2024-01-03T00:00:00Z'' ''not a url'' ''desktop'' 2"
  let ?g1 = "\<lparr> wg_url = ''https://a.com/x'', wg_domain = ''a.com'', wg_count = 2,
               wg_lastTested = ''2024-01-03T00:00:00Z'', wg_results = [?c, ?a] \<rparr>"
  let ?g2 = "\<lparr> wg_url = ''https://www.a.com/y'', wg_domain = ''www.a.com'', wg_count = 1,
               wg_lastTested = ''2024-01-01T00:00:00Z'', wg_results = [?b] \<rparr>"
  have dated: "\<forall>r \<in> set [?a, ?b, ?c, ?d].
                 \<exists>s t. created_at r = Some s \<and> s \<noteq> [] \<and> scenarioDate s = Some t"
    by (simp add: scenarioRecord_def scenarioDate_def)
  have run: "fetchWebsiteGroups scenarioDate scenarioHostname [?a, ?b, ?c, ?d] = Inr [?g1, ?g2]"
    by (simp add: grouping_eval)
  from fetchWebsiteGroups_partition [OF dated, of scenarioHostname] obtain groups where
    "fetchWebsiteGroups scenarioDate scenarioHostname [?a, ?b, ?c, ?d] = Inr groups"
    and "sorted_wrt (\<lambda>g g'. notEarlier (scenarioDate (wg_lastTested g))
                              (scenarioDate (wg_lastTested g'))) groups"
    by blast
  with run have "sorted_wrt (\<lambda>g g'. notEarlier (scenarioDate (wg_lastTested g))
                              (scenarioDate (wg_lastTested g'))) [?g1, ?g2]"
    by simp
  with run show ?thesis by (rule conjI)
qed

section \<open>Properties of the export\<close>
























end
